theory Spec2Isabelle
  imports Complex_Main "HOL-Library.Char_ord" "HOL-Library.List_Lexorder" "HOL-Library.Multiset"
begin

section \<open>Type Detective: values, configuration and string primitives\<close>

text \<open>
  The development embeds \<^verbatim>\<open>src/mod.ts\<close>: \<^verbatim>\<open>inferType\<close>, \<^verbatim>\<open>mergeTypes\<close>,
  \<^verbatim>\<open>mergeObjectArrayTypes\<close>, \<^verbatim>\<open>setupTypeDetective\<close> and the global
  \<^verbatim>\<open>typeDetectiveConfig\<close>.

  Conventions of the embedding.
  \<^item> A JavaScript string is a \<open>string\<close> (a list of 8-bit characters); code units above
    255 are not represented, so the only line terminators are LF and CR and the only
    white space is TAB, LF, VT, FF, CR, SP and NBSP.
  \<^item> A JavaScript number is a \<open>jsnumber\<close>: a finite value (a rational; rounding of
    doubles is not modelled), \<open>NaN\<close>, or one of the two infinities.
  \<^item> The only exception the module can raise on the modelled values is the
    \<^verbatim>\<open>RangeError\<close> of \<^verbatim>\<open>String.prototype.repeat\<close>; it is a value of type \<open>error\<close>,
    and every function that can raise returns \<open>error + 'a\<close>.  Engine resource limits
    (maximal string length, call stack depth) are not modelled.
\<close>

datatype error = RangeError

datatype jsnumber = Finite rat | NaN | PosInfinity | NegInfinity

text \<open>
  A runtime value.  \<open>JArray xs\<close> is a dense array (no holes).  \<open>JObject kvs\<close> is a
  non-array, non-function object given by its own enumerable string-keyed properties
  in enumeration order (the order of \<^verbatim>\<open>for ... in\<close> and \<^verbatim>\<open>Object.keys\<close>).  A list
  \<open>kvs\<close> stands for an object when it has each key once and no key \<^verbatim>\<open>__proto__\<close> (the
  assignment \<^verbatim>\<open>properties[key] = ...\<close> of line 274 creates no property of that name).
  Inherited properties do not occur: the test of line 269 skips them.
  \<open>JOther\<close> stands for a value of a kind the module does not recognise: \<^verbatim>\<open>typeof\<close>
  reports none of its eight standard tags for it (the model writes the tag \<^verbatim>\<open>other\<close>).
\<close>

datatype jsvalue =
    JNull
  | JUndefined
  | JBoolean bool
  | JNumber jsnumber
  | JString string
  | JSymbol
  | JBigInt int
  | JFunction
  | JArray "jsvalue list"
  | JObject "(string \<times> jsvalue) list"
  | JOther

fun typeof :: "jsvalue \<Rightarrow> string" where
  "typeof JNull = ''object''"
| "typeof JUndefined = ''undefined''"
| "typeof (JBoolean b) = ''boolean''"
| "typeof (JNumber n) = ''number''"
| "typeof (JString s) = ''string''"
| "typeof JSymbol = ''symbol''"
| "typeof (JBigInt i) = ''bigint''"
| "typeof JFunction = ''function''"
| "typeof (JArray xs) = ''object''"
| "typeof (JObject kvs) = ''object''"
| "typeof JOther = ''other''"

text \<open>\<^verbatim>\<open>Array.isArray(v)\<close>.\<close>

fun isArray :: "jsvalue \<Rightarrow> bool" where
  "isArray (JArray xs) = True"
| "isArray v = False"

text \<open>The elements of an array (only applied under \<open>isArray\<close>).\<close>

fun elements :: "jsvalue \<Rightarrow> jsvalue list" where
  "elements (JArray xs) = xs"
| "elements v = []"

text \<open>JavaScript truthiness, as used by \<^verbatim>\<open>el && ...\<close>.\<close>

fun truthy :: "jsvalue \<Rightarrow> bool" where
  "truthy JNull = False"
| "truthy JUndefined = False"
| "truthy (JBoolean b) = b"
| "truthy (JNumber n) = (n \<noteq> NaN \<and> n \<noteq> Finite 0)"
| "truthy (JString s) = (s \<noteq> [])"
| "truthy (JBigInt i) = (i \<noteq> 0)"
| "truthy v = True"

text \<open>
  The own enumerable properties of a value whose \<^verbatim>\<open>typeof\<close> is \<^verbatim>\<open>"object"\<close> and which
  is neither \<^verbatim>\<open>null\<close> nor an array (the module reads properties of no other value).
\<close>

fun ownEntries :: "jsvalue \<Rightarrow> (string \<times> jsvalue) list" where
  "ownEntries (JObject kvs) = kvs"
| "ownEntries v = []"

text \<open>
  The guard \<^verbatim>\<open>el && typeof el === "object" && !Array.isArray(el)\<close> of lines 190, 330,
  342 and 349.
\<close>

definition isPlainObject :: "jsvalue \<Rightarrow> bool" where
  "isPlainObject el = (truthy el \<and> typeof el = ''object'' \<and> \<not> isArray el)"

subsection \<open>Configuration\<close>

datatype TypeDetectiveMode = Merge | Union

datatype TypeDetectiveIndentType = Space | Tab

datatype TypeDetectiveArrayStyle = Generic | Postfix

text \<open>The record \<^verbatim>\<open>TypeDetectiveConfig\<close>; \<open>computedIndent\<close> is \<^verbatim>\<open>_computedIndent\<close>.\<close>

record TypeDetectiveConfig =
  mode :: TypeDetectiveMode
  indent :: jsnumber
  indentType :: TypeDetectiveIndentType
  computedIndent :: string
  arrayStyle :: TypeDetectiveArrayStyle

text \<open>The initial value of the global \<^verbatim>\<open>typeDetectiveConfig\<close> (lines 41-47).\<close>

definition typeDetectiveConfig :: TypeDetectiveConfig where
  "typeDetectiveConfig =
     \<lparr> mode = Merge, indent = Finite 2, indentType = Space,
       computedIndent = ''  '', arrayStyle = Postfix \<rparr>"

subsection \<open>Numbers and strings of the host language\<close>

text \<open>
  \<^verbatim>\<open>s.repeat(count)\<close>: the count is converted with ToIntegerOrInfinity (NaN becomes 0,
  a finite number is truncated towards zero); a negative or infinite result raises
  \<^verbatim>\<open>RangeError\<close>.
\<close>

fun js_repeat :: "string \<Rightarrow> jsnumber \<Rightarrow> error + string" where
  "js_repeat s NaN = Inr []"
| "js_repeat s PosInfinity = Inl RangeError"
| "js_repeat s NegInfinity = Inl RangeError"
| "js_repeat s (Finite q) =
     (if q \<le> - 1 then Inl RangeError else Inr (concat (replicate (nat \<lfloor>q\<rfloor>) s)))"

text \<open>\<^verbatim>\<open>n + 1\<close> on numbers.\<close>

fun js_succ :: "jsnumber \<Rightarrow> jsnumber" where
  "js_succ (Finite q) = Finite (q + 1)"
| "js_succ n = n"

text \<open>\<^verbatim>\<open>n > 0\<close> on numbers.\<close>

fun js_positive :: "jsnumber \<Rightarrow> bool" where
  "js_positive (Finite q) = (0 < q)"
| "js_positive PosInfinity = True"
| "js_positive n = False"

definition isLineTerminator :: "char \<Rightarrow> bool" where
  "isLineTerminator c = (c = CHR 0x0A \<or> c = CHR 0x0D)"

definition isWhiteSpace :: "char \<Rightarrow> bool" where
  "isWhiteSpace c =
     (c = CHR 0x09 \<or> c = CHR 0x0A \<or> c = CHR 0x0B \<or> c = CHR 0x0C \<or> c = CHR 0x0D
      \<or> c = CHR 0x20 \<or> c = CHR 0xA0)"

text \<open>\<^verbatim>\<open>t.trim()\<close>.\<close>

definition trim :: "string \<Rightarrow> string" where
  "trim t = rev (dropWhile isWhiteSpace (rev (dropWhile isWhiteSpace t)))"

text \<open>\<^verbatim>\<open>t.split(c)\<close> for a one-character separator: never the empty list.\<close>

fun split :: "char \<Rightarrow> string \<Rightarrow> string list" where
  "split c [] = [[]]"
| "split c (x # xs) =
     (if x = c then [] # split c xs
      else (case split c xs of [] \<Rightarrow> [[x]] | p # ps \<Rightarrow> (x # p) # ps))"

text \<open>\<^verbatim>\<open>parts.join(sep)\<close>.\<close>

fun join :: "string \<Rightarrow> string list \<Rightarrow> string" where
  "join sep [] = []"
| "join sep [x] = x"
| "join sep (x # y # ys) = x @ sep @ join sep (y # ys)"

definition startsWith :: "string \<Rightarrow> string \<Rightarrow> bool" where
  "startsWith p t = (take (length p) t = p)"

definition endsWith :: "string \<Rightarrow> string \<Rightarrow> bool" where
  "endsWith p t = (length p \<le> length t \<and> drop (length t - length p) t = p)"

text \<open>\<^verbatim>\<open>t.includes("\n")\<close>.\<close>

definition includesNewline :: "string \<Rightarrow> bool" where
  "includesNewline t = (CHR 0x0A \<in> set t)"

text \<open>\<^verbatim>\<open>t.slice(1, -1)\<close>.\<close>

definition slice_1_m1 :: "string \<Rightarrow> string" where
  "slice_1_m1 t = butlast (tl t)"

text \<open>
  \<^verbatim>\<open>t.match(/^(.*)\[\]$/)\<close>, returning the group: without the \<^verbatim>\<open>s\<close> flag the dot
  matches no line terminator and \<^verbatim>\<open>$\<close> only the end of the input, so the match
  succeeds iff \<open>t\<close> ends with \<^verbatim>\<open>[]\<close> and has no line terminator before it.
\<close>

definition matchPostfix :: "string \<Rightarrow> string option" where
  "matchPostfix t =
     (if endsWith ''[]'' t \<and> \<not> list_ex isLineTerminator (take (length t - 2) t)
      then Some (take (length t - 2) t) else None)"

text \<open>
  \<^verbatim>\<open>t.match(/^Array<(.+)>$/s)\<close>, returning the group: with the \<^verbatim>\<open>s\<close> flag the dot
  matches every character, so the match succeeds iff \<open>t\<close> is \<^verbatim>\<open>Array<\<close>, at least one
  character, \<^verbatim>\<open>>\<close>.
\<close>

definition matchGeneric :: "string \<Rightarrow> string option" where
  "matchGeneric t =
     (if 8 \<le> length t \<and> startsWith ''Array<'' t \<and> endsWith ''>'' t
      then Some (take (length t - 7) (drop 6 t)) else None)"

text \<open>
  \<^verbatim>\<open>Array.from(new Set(xs))\<close>: the distinct elements in order of first occurrence.
\<close>

definition setAdd :: "'a list \<Rightarrow> 'a \<Rightarrow> 'a list" where
  "setAdd s x = (if x \<in> set s then s else s @ [x])"

definition arrayFromSet :: "'a list \<Rightarrow> 'a list" where
  "arrayFromSet xs = foldl setAdd [] xs"

text \<open>
  \<^verbatim>\<open>xs.sort()\<close> on strings: ascending by code units, a proper prefix first; this is the
  lexicographic order of \<open>string\<close>.
\<close>

definition js_sort :: "string list \<Rightarrow> string list" where
  "js_sort xs = sort xs"

subsection \<open>Results that may raise\<close>

definition bindE :: "'e + 'a \<Rightarrow> ('a \<Rightarrow> 'e + 'b) \<Rightarrow> 'e + 'b" where
  "bindE m f = (case m of Inl e \<Rightarrow> Inl e | Inr x \<Rightarrow> f x)"

text \<open>Evaluating a list of computations from left to right, stopping at the first error.\<close>

fun sequenceE :: "('e + 'a) list \<Rightarrow> 'e + 'a list" where
  "sequenceE [] = Inr []"
| "sequenceE (m # ms) = bindE m (\<lambda>x. bindE (sequenceE ms) (\<lambda>xs. Inr (x # xs)))"

lemma bindE_cong [fundef_cong]:
  "m = m' \<Longrightarrow> (\<And>x. m' = Inr x \<Longrightarrow> f x = g x) \<Longrightarrow> bindE m f = bindE m' g"
  by (cases m') (simp_all add: bindE_def)

section \<open>The inference engine\<close>

subsection \<open>\<^verbatim>\<open>mergeTypes\<close> (lines 301-304)\<close>

definition mergeTypes :: "string list \<Rightarrow> string" where
  "mergeTypes types =
     (let unique = js_sort (arrayFromSet types)
      in case unique of [u] \<Rightarrow> u | _ \<Rightarrow> join '' | '' unique)"

subsection \<open>Rendering an array type from the element types already inferred\<close>

text \<open>\<^verbatim>\<open>match ? match[1] : t\<close> for the postfix pattern (lines 150-153, 164-167, 217-220).\<close>

definition stripPostfix :: "string \<Rightarrow> string" where
  "stripPostfix t = (case matchPostfix t of Some m \<Rightarrow> m | None \<Rightarrow> t)"

text \<open>
  The loop of lines 126-134 (again at 169-177 and 222-230): trim, drop one pair of
  enclosing parentheses, split at every bar, trim the parts.
\<close>

definition flattenTypes :: "string list \<Rightarrow> string list" where
  "flattenTypes ts =
     concat (map (\<lambda>t.
       let t1 = trim t;
           t2 = (if startsWith ''('' t1 \<and> endsWith '')'' t1 then slice_1_m1 t1 else t1)
       in map trim (split CHR ''|'' t2)) ts)"

text \<open>The loop of lines 104-122: one layer of array syntax is taken off each text.\<close>

definition collectElementTypes :: "TypeDetectiveArrayStyle \<Rightarrow> string list \<Rightarrow> string list" where
  "collectElementTypes style subArrayTypes =
     concat (map (\<lambda>typeStr.
       if style = Postfix
       then (case matchPostfix typeStr of Some m \<Rightarrow> [m] | None \<Rightarrow> [typeStr])
       else (case matchGeneric typeStr of
               Some m \<Rightarrow> map trim (split CHR ''|'' m)
             | None \<Rightarrow> [typeStr])) subArrayTypes)"

text \<open>Lines 163-184 and, verbatim again, 216-237: the single-line union rendering.\<close>

definition singleLineUnion :: "TypeDetectiveArrayStyle \<Rightarrow> string list \<Rightarrow> string" where
  "singleLineUnion style uniqueTypes =
     (if style = Postfix
      then (let baseTypes = map stripPostfix uniqueTypes;
                dedupedBaseTypes = js_sort (arrayFromSet (flattenTypes baseTypes))
            in case dedupedBaseTypes of
                 [d] \<Rightarrow> d @ ''[][]''
               | _ \<Rightarrow> ''('' @ join '' | '' dedupedBaseTypes @ '')[][]'')
      else ''Array<'' @ join '' | '' uniqueTypes @ ''>'')"

text \<open>Lines 158-160 and 211-213: the multi-line union in the generic style.\<close>

definition multiLineGeneric :: "string \<Rightarrow> string \<Rightarrow> string list \<Rightarrow> string" where
  "multiLineGeneric indent' nextIndent uniqueTypes =
     ''Array<\<newline>'' @ nextIndent @ join ('' |\<newline>'' @ nextIndent) uniqueTypes
       @ ''\<newline>'' @ indent' @ ''>''"

text \<open>
  Lines 102-186: the type of an array all of whose elements are arrays, from the texts
  inferred for the sub-arrays.
\<close>

definition arrayOfArraysType ::
  "TypeDetectiveArrayStyle \<Rightarrow> TypeDetectiveMode \<Rightarrow> string \<Rightarrow> string \<Rightarrow> string list \<Rightarrow> string" where
  "arrayOfArraysType style mode' indent' nextIndent subArrayTypes =
     (if mode' = Merge
      then (let elementTypes = collectElementTypes style subArrayTypes
            in if style = Postfix
               then (let dedupedElementTypes = js_sort (arrayFromSet (flattenTypes elementTypes));
                         mergedElementType = join ''|'' dedupedElementTypes
                     in if length dedupedElementTypes = 1
                        then mergedElementType @ ''[][]''
                        else ''('' @ mergedElementType @ '')[][]'')
               else (let dedupedElementTypes = js_sort (arrayFromSet elementTypes);
                         mergedElementType = join ''|'' dedupedElementTypes
                     in ''Array<Array<'' @ mergedElementType @ ''>>''))
      else (let uniqueTypes = arrayFromSet subArrayTypes;
                multiline = list_ex includesNewline uniqueTypes
            in if multiline
               then (if style = Postfix
                     then (let baseTypes = map stripPostfix uniqueTypes
                           in case baseTypes of
                                [b] \<Rightarrow> b @ ''[][]''
                              | _ \<Rightarrow> ''('' @ join ('' |\<newline>'' @ nextIndent) baseTypes @ '')[][]'')
                     else multiLineGeneric indent' nextIndent uniqueTypes)
               else singleLineUnion style uniqueTypes))"

text \<open>
  Lines 203-238: the union-mode type of an array all of whose elements are objects, from
  the texts inferred for the objects.
\<close>

definition objectUnionType ::
  "TypeDetectiveArrayStyle \<Rightarrow> string \<Rightarrow> string \<Rightarrow> string list \<Rightarrow> string" where
  "objectUnionType style indent' nextIndent objectTypes =
     (let uniqueTypes = arrayFromSet objectTypes;
          multiline = list_ex includesNewline uniqueTypes
      in if multiline
         then (if style = Postfix
               then (case uniqueTypes of
                       [u] \<Rightarrow> u @ ''[]''
                     | _ \<Rightarrow> ''('' @ join ('' |\<newline>'' @ nextIndent) uniqueTypes @ '')[]'')
               else multiLineGeneric indent' nextIndent uniqueTypes)
         else singleLineUnion style uniqueTypes)"

text \<open>Lines 193-198: wrapping the merged object type of an array of objects.\<close>

definition mergedArrayType :: "TypeDetectiveArrayStyle \<Rightarrow> string \<Rightarrow> string" where
  "mergedArrayType style merged =
     (if style = Postfix
      then (if startsWith ''{'' merged then merged @ ''[]'' else ''('' @ merged @ '')[]'')
      else ''Array<'' @ merged @ ''>'')"

text \<open>Lines 256-263: the type of an array of mixed kinds, from its element type texts.\<close>

definition mixedArrayType :: "TypeDetectiveArrayStyle \<Rightarrow> string list \<Rightarrow> string" where
  "mixedArrayType style elementTypes =
     (let elementTypesArr = arrayFromSet elementTypes
      in if style = Postfix
         then (case elementTypesArr of
                 [e] \<Rightarrow> e @ ''[]''
               | _ \<Rightarrow> ''('' @ join '' | '' elementTypesArr @ '')[]'')
         else ''Array<'' @ join '' | '' elementTypesArr @ ''>'')"

text \<open>Lines 278-287: the block of an object, from its \<open>(key, type text)\<close> entries.\<close>

definition objectType :: "string \<Rightarrow> string \<Rightarrow> (string \<times> string) list \<Rightarrow> string" where
  "objectType indent' nextIndent properties =
     (if length properties = 0 then ''Record<string | number | symbol, never>''
      else ''{\<newline>''
           @ concat (map (\<lambda>(key, ty). nextIndent @ key @ '': '' @ ty @ '';\<newline>'') properties)
           @ indent' @ ''}'')"

text \<open>
  Lines 374-377: the line of one key of a merged object type, from the type texts
  collected for the key, its presence count and the number of merged values.
\<close>

definition mergedLine :: "string \<Rightarrow> nat \<Rightarrow> string \<Rightarrow> string list \<Rightarrow> nat \<Rightarrow> string" where
  "mergedLine nextIndent arrLength key types presentCount =
     (let isOptional = presentCount < arrLength
      in nextIndent @ key @ (if isOptional then ''?'' else []) @ '': ''
         @ mergeTypes types @ '';\<newline>'')"

text \<open>Lines 328-335: the keys of all objects, in order of first occurrence.\<close>

definition allKeys :: "jsvalue list \<Rightarrow> string list" where
  "allKeys arr =
     arrayFromSet (concat (map (\<lambda>obj.
       if isPlainObject obj then map fst (ownEntries obj) else []) arr))"

text \<open>
  \<^verbatim>\<open>obj[key]\<close> under the guard of lines 341-344 (an object that has the key as an own
  property), \<open>None\<close> when the guard fails.
\<close>

definition ownProperty :: "jsvalue \<Rightarrow> string \<Rightarrow> jsvalue option" where
  "ownProperty obj key = (if isPlainObject obj then map_of (ownEntries obj) key else None)"

lemma size_list_member: "x \<in> set xs \<Longrightarrow> size x < size_list size xs"
  by (induction xs) auto

lemma size_elements_list: "isArray v \<Longrightarrow> size_list size (elements v) < size v"
  by (cases v) simp_all

lemma size_elements: "x \<in> set (elements v) \<Longrightarrow> Suc (size x) < size v"
  by (cases v) (auto dest: size_list_member)

lemma size_ownEntries: "(k, x) \<in> set (ownEntries v) \<Longrightarrow> Suc (size x) < size v"
proof (cases v)
  case (JObject kvs)
  assume "(k, x) \<in> set (ownEntries v)"
  with JObject have mem: "(k, x) \<in> set kvs" by simp
  have "size_prod (\<lambda>_. 0) size (k, x) \<le> size_list (size_prod (\<lambda>_. 0) size) kvs"
    using mem by (rule size_list_estimation') simp
  with JObject show ?thesis by simp
qed simp_all

lemma size_ownProperty: "ownProperty obj key = Some x \<Longrightarrow> Suc (size x) < size obj"
  by (auto simp: ownProperty_def split: if_splits dest!: map_of_SomeD size_ownEntries)

lemma size_property_of_member:
  "obj \<in> set arr \<Longrightarrow> ownProperty obj key = Some x \<Longrightarrow> Suc (Suc (size x)) < size_list size arr"
  using size_ownProperty[of obj key x] size_list_member[of obj arr] by simp

lemma size_property_elements:
  "obj \<in> set arr \<Longrightarrow> ownProperty obj key = Some x \<Longrightarrow> isArray x
   \<Longrightarrow> size_list size (elements x) < size_list size arr"
  using size_property_of_member[of obj arr key x] size_elements_list[of x] by simp

subsection \<open>\<^verbatim>\<open>inferType\<close> (lines 60-291) and \<^verbatim>\<open>mergeObjectArrayTypes\<close> (lines 316-381)\<close>

text \<open>
  The configuration the source reads from the global \<^verbatim>\<open>typeDetectiveConfig\<close> is the
  parameter \<open>cfg\<close>; neither function assigns to it.  A primed name (\<open>mode'\<close>,
  \<open>indent'\<close>) is the source's variable of that name (the unprimed names are the fields
  of the configuration), and \<open>v\<close> is \<^verbatim>\<open>value\<close>.
  In \<open>mergeObjectArrayTypes\<close> the source first fills \<^verbatim>\<open>properties[key]\<close> for every key
  and then reads it for every key of the sorted list; the model computes the entry of a
  key where it is read.
\<close>

function inferType ::
    "TypeDetectiveConfig \<Rightarrow> jsvalue \<Rightarrow> jsnumber \<Rightarrow> TypeDetectiveMode \<Rightarrow> error + string"
  and mergeObjectArrayTypes ::
    "TypeDetectiveConfig \<Rightarrow> jsvalue list \<Rightarrow> jsnumber \<Rightarrow> TypeDetectiveMode \<Rightarrow> error + string"
where
  "inferType cfg v indentLevel mode' =
     bindE (js_repeat (computedIndent cfg) indentLevel) (\<lambda>indent'.
     bindE (js_repeat (computedIndent cfg) (js_succ indentLevel)) (\<lambda>nextIndent.
       if v = JNull then Inr ''null''
       else if typeof v = ''undefined'' \<or> typeof v = ''boolean'' \<or> typeof v = ''number''
               \<or> typeof v = ''string'' \<or> typeof v = ''symbol'' \<or> typeof v = ''bigint''
       then Inr (typeof v)
       else if typeof v = ''function'' then Inr ''() => unknown''
       else if isArray v then
         (if length (elements v) = 0
          then Inr (if arrayStyle cfg = Postfix then ''unknown[]'' else ''Array<unknown>'')
          else if list_all isArray (elements v)
          then bindE (sequenceE (map (\<lambda>subArr. inferType cfg subArr (js_succ indentLevel) mode')
                                     (elements v)))
                 (\<lambda>subArrayTypes.
                    Inr (arrayOfArraysType (arrayStyle cfg) mode' indent' nextIndent subArrayTypes))
          else if list_all isPlainObject (elements v)
          then (case mode' of
                  Merge \<Rightarrow>
                    bindE (mergeObjectArrayTypes cfg (elements v) indentLevel mode')
                      (\<lambda>merged. Inr (mergedArrayType (arrayStyle cfg) merged))
                | Union \<Rightarrow>
                    bindE (sequenceE (map (\<lambda>obj. inferType cfg obj (js_succ indentLevel) mode')
                                          (elements v)))
                      (\<lambda>objectTypes.
                         Inr (objectUnionType (arrayStyle cfg) indent' nextIndent objectTypes)))
          else bindE (sequenceE (map (\<lambda>el.
                        if isArray el then inferType cfg el (js_succ indentLevel) mode'
                        else if truthy el \<and> typeof el = ''object''
                        then (if mode' = Union then inferType cfg el (js_succ indentLevel) mode'
                              else mergeObjectArrayTypes cfg [el] (js_succ indentLevel) mode')
                        else inferType cfg el (js_succ indentLevel) mode') (elements v)))
                 (\<lambda>elementTypes. Inr (mixedArrayType (arrayStyle cfg) elementTypes)))
       else if typeof v = ''object'' then
         bindE (sequenceE (map (\<lambda>kv.
                  bindE (inferType cfg (snd kv) (js_succ indentLevel) mode')
                    (\<lambda>ty. Inr (fst kv, ty))) (ownEntries v)))
           (\<lambda>properties. Inr (objectType indent' nextIndent properties))
       else Inr ''unknown''))"
| "mergeObjectArrayTypes cfg arr indentLevel mode' =
     bindE (js_repeat (computedIndent cfg) indentLevel) (\<lambda>indent'.
     bindE (js_repeat (computedIndent cfg) (js_succ indentLevel)) (\<lambda>nextIndent.
       if length arr = 0 then Inr ''{ [key: string]: unknown }''
       else
         (let keys = js_sort (allKeys arr)
          in if length keys = 0 then Inr ''Record<string | number | symbol, never>''
             else bindE (sequenceE (map (\<lambda>key.
                      bindE (sequenceE (concat (map (\<lambda>obj.
                               case ownProperty obj key of
                                 None \<Rightarrow> []
                               | Some val \<Rightarrow>
                                   [if isArray val
                                    then (if length (elements val) > 0
                                             \<and> list_all isPlainObject (elements val)
                                          then bindE (mergeObjectArrayTypes cfg (elements val)
                                                        (js_succ indentLevel) mode')
                                                 (\<lambda>merged. Inr (''Array<'' @ merged @ ''>''))
                                          else inferType cfg val (js_succ indentLevel) mode')
                                    else if truthy val \<and> typeof val = ''object''
                                    then mergeObjectArrayTypes cfg [val] (js_succ indentLevel) mode'
                                    else inferType cfg val (js_succ indentLevel) mode']) arr)))
                        (\<lambda>types.
                           Inr (mergedLine nextIndent (length arr) key types (length types))))
                      keys))
                    (\<lambda>lines. Inr (''{\<newline>'' @ concat lines @ indent' @ ''}'')))))"
  by pat_completeness auto

termination
proof (relation "measure (\<lambda>x. case x of
          Inl (cfg, v, lvl, mode') \<Rightarrow> size v
        | Inr (cfg, arr, lvl, mode') \<Rightarrow> size_list size arr)", goal_cases)
  case 1
  show ?case by simp
qed (auto simp: size_elements_list size_elements size_property_elements
          dest: size_elements size_ownEntries size_property_of_member)

declare inferType.simps [simp del] mergeObjectArrayTypes.simps [simp del]

text \<open>
  Lines 346-363, the type text one value contributes to its key in
  \<open>mergeObjectArrayTypes\<close>, as a function of its own (\<open>lvl\<close> is the caller's
  \<^verbatim>\<open>indentLevel + 1\<close>); \<open>mergeObjectArrayTypes_unfold\<close> below shows that it is the term
  of the definition above.
\<close>

definition contributedType ::
  "TypeDetectiveConfig \<Rightarrow> jsvalue \<Rightarrow> jsnumber \<Rightarrow> TypeDetectiveMode \<Rightarrow> error + string" where
  "contributedType cfg val lvl mode' =
     (if isArray val
      then (if length (elements val) > 0 \<and> list_all isPlainObject (elements val)
            then bindE (mergeObjectArrayTypes cfg (elements val) lvl mode')
                   (\<lambda>merged. Inr (''Array<'' @ merged @ ''>''))
            else inferType cfg val lvl mode')
      else if truthy val \<and> typeof val = ''object''
      then mergeObjectArrayTypes cfg [val] lvl mode'
      else inferType cfg val lvl mode')"

text \<open>
  Lines 244-254, the type text of one element of an array of mixed kinds (\<open>lvl\<close> is the
  caller's \<^verbatim>\<open>indentLevel + 1\<close>); \<open>inferType_JArray\<close> below shows that it is the term of
  the definition above.
\<close>

definition elementType ::
  "TypeDetectiveConfig \<Rightarrow> jsvalue \<Rightarrow> jsnumber \<Rightarrow> TypeDetectiveMode \<Rightarrow> error + string" where
  "elementType cfg el lvl mode' =
     (if isArray el then inferType cfg el lvl mode'
      else if truthy el \<and> typeof el = ''object''
      then (if mode' = Union then inferType cfg el lvl mode'
            else mergeObjectArrayTypes cfg [el] lvl mode')
      else inferType cfg el lvl mode')"

text \<open>
  The values \<^verbatim>\<open>obj[key]\<close> of the loop of lines 340-366, in the order of \<open>arr\<close>: one
  for every element that passes the guard of lines 341-344.
\<close>

definition presentValues :: "jsvalue list \<Rightarrow> string \<Rightarrow> jsvalue list" where
  "presentValues arr key =
     concat (map (\<lambda>obj. case ownProperty obj key of None \<Rightarrow> [] | Some val \<Rightarrow> [val]) arr)"

text \<open>\<^verbatim>\<open>properties[key].presentCount\<close> after the loop of lines 340-366.\<close>

definition presentCount :: "jsvalue list \<Rightarrow> string \<Rightarrow> nat" where
  "presentCount arr key = length (presentValues arr key)"

text \<open>
  The text of a result; the empty text stands for a raised error and is only read
  where the result is known to be a text.
\<close>

definition typeText :: "error + string \<Rightarrow> string" where
  "typeText r = (case r of Inl e \<Rightarrow> [] | Inr s \<Rightarrow> s)"

text \<open>The counts \<^verbatim>\<open>repeat\<close> accepts: every number but the infinities and those \<open>\<le> -1\<close>.\<close>

fun repeatable :: "jsnumber \<Rightarrow> bool" where
  "repeatable (Finite q) = (- 1 < q)"
| "repeatable NaN = True"
| "repeatable n = False"

text \<open>
  The indentation \<^verbatim>\<open>_computedIndent.repeat(lvl)\<close> for a count \<^verbatim>\<open>repeat\<close> accepts.
\<close>

definition indentText :: "TypeDetectiveConfig \<Rightarrow> jsnumber \<Rightarrow> string" where
  "indentText cfg lvl = typeText (js_repeat (computedIndent cfg) lvl)"

text \<open>
  \<^verbatim>\<open>properties[key].types\<close> after the loop of lines 340-366, where every contribution
  is a text.
\<close>

definition contributedTypes ::
  "TypeDetectiveConfig \<Rightarrow> jsvalue list \<Rightarrow> string \<Rightarrow> jsnumber \<Rightarrow> TypeDetectiveMode \<Rightarrow> string list" where
  "contributedTypes cfg arr key lvl mode' =
     map (\<lambda>val. typeText (contributedType cfg val lvl mode')) (presentValues arr key)"

text \<open>A call returns normally: its result is a text, not an error.\<close>

definition returns :: "'e + 'a \<Rightarrow> bool" where
  "returns r = (case r of Inl e \<Rightarrow> False | Inr s \<Rightarrow> True)"

text \<open>The own keys of an object.\<close>

definition keysOf :: "jsvalue \<Rightarrow> string set" where
  "keysOf obj = set (map fst (ownEntries obj))"

section \<open>Configuration updates and the module as a state machine\<close>

text \<open>\<^verbatim>\<open>options.key\<close>: the property, \<^verbatim>\<open>undefined\<close> when the object has none of that name.\<close>

definition getOption :: "(string \<times> jsvalue) list \<Rightarrow> string \<Rightarrow> jsvalue" where
  "getOption options key = (case map_of options key of Some v \<Rightarrow> v | None \<Rightarrow> JUndefined)"

text \<open>
  \<^verbatim>\<open>setupTypeDetective\<close> (lines 410-435).  The options are the own properties of the
  argument, with values of any kind.  The function assigns to the global configuration:
  it takes the configuration and returns the new one, together with \<open>Inr ()\<close> for a
  normal return or the error raised by \<^verbatim>\<open>repeat\<close>; the fields assigned before the
  error stay assigned.  \<^verbatim>\<open>typeof x === "number"\<close> holds exactly for \<open>JNumber\<close>.
\<close>

definition setupTypeDetective ::
  "(string \<times> jsvalue) list \<Rightarrow> TypeDetectiveConfig \<Rightarrow> (error + unit) \<times> TypeDetectiveConfig" where
  "setupTypeDetective options cfg =
     (let cfg1 = (case getOption options ''indent'' of
                    JNumber n \<Rightarrow> if js_positive n then cfg\<lparr>indent := n\<rparr> else cfg
                  | _ \<Rightarrow> cfg);
          cfg2 = (if getOption options ''indentType'' = JString ''space''
                  then cfg1\<lparr>indentType := Space\<rparr>
                  else if getOption options ''indentType'' = JString ''tab''
                  then cfg1\<lparr>indentType := Tab\<rparr>
                  else cfg1);
          cfg3 = (if getOption options ''arrayStyle'' = JString ''generic''
                  then cfg2\<lparr>arrayStyle := Generic\<rparr>
                  else if getOption options ''arrayStyle'' = JString ''postfix''
                  then cfg2\<lparr>arrayStyle := Postfix\<rparr>
                  else cfg2);
          cfg4 = (if getOption options ''mode'' = JString ''merge''
                  then cfg3\<lparr>mode := Merge\<rparr>
                  else if getOption options ''mode'' = JString ''union''
                  then cfg3\<lparr>mode := Union\<rparr>
                  else cfg3)
      in case js_repeat (if indentType cfg4 = Tab then [CHR 0x09] else '' '') (indent cfg4) of
           Inl e \<Rightarrow> (Inl e, cfg4)
         | Inr s \<Rightarrow> (Inr (), cfg4\<lparr>computedIndent := s\<rparr>))"

text \<open>
  The exported functions as transitions on the global configuration.  An omitted
  argument (\<open>None\<close>) takes the default of the signature: \<^verbatim>\<open>indentLevel = 0\<close> and
  \<^verbatim>\<open>mode = typeDetectiveConfig.mode\<close>, read when the call is made.
\<close>

datatype call =
    InferType jsvalue "jsnumber option" "TypeDetectiveMode option"
  | DetectType jsvalue "jsnumber option" "TypeDetectiveMode option"
  | SetupTypeDetective "(string \<times> jsvalue) list"
  | GetTypeDetectiveConfig

datatype response =
    Text "error + string"
  | Done "error + unit"
  | Config TypeDetectiveConfig

text \<open>
  A call of \<^verbatim>\<open>inferType\<close> with its defaults filled in; \<^verbatim>\<open>detectType\<close> (lines 392-398)
  passes its three parameters on to it.
\<close>

definition callInferType ::
  "jsvalue \<Rightarrow> jsnumber option \<Rightarrow> TypeDetectiveMode option \<Rightarrow> TypeDetectiveConfig \<Rightarrow> error + string" where
  "callInferType v lvl m cfg =
     inferType cfg v (case lvl of None \<Rightarrow> Finite 0 | Some n \<Rightarrow> n)
                     (case m of None \<Rightarrow> mode cfg | Some x \<Rightarrow> x)"

fun step :: "call \<Rightarrow> TypeDetectiveConfig \<Rightarrow> response \<times> TypeDetectiveConfig" where
  "step (InferType v lvl m) cfg = (Text (callInferType v lvl m cfg), cfg)"
| "step (DetectType v lvl m) cfg = (Text (callInferType v lvl m cfg), cfg)"
| "step (SetupTypeDetective options) cfg =
     (case setupTypeDetective options cfg of (r, cfg') \<Rightarrow> (Done r, cfg'))"
| "step GetTypeDetectiveConfig cfg = (Config cfg, cfg)"

fun run :: "call list \<Rightarrow> TypeDetectiveConfig \<Rightarrow> response list \<times> TypeDetectiveConfig" where
  "run [] cfg = ([], cfg)"
| "run (c # cs) cfg =
     (case step c cfg of (r, cfg') \<Rightarrow> (case run cs cfg' of (rs, cfg'') \<Rightarrow> (r # rs, cfg'')))"


section \<open>Basic facts\<close>

subsection \<open>Results and sequencing\<close>

lemma returns_Inr [simp]: "returns (Inr s)"
  by (simp add: returns_def)

lemma returns_Inl [simp]: "\<not> returns (Inl e)"
  by (simp add: returns_def)

lemma bindE_Inr [simp]: "bindE (Inr x) f = f x"
  by (simp add: bindE_def)

lemma bindE_Inl [simp]: "bindE (Inl e) f = Inl e"
  by (simp add: bindE_def)

lemma typeText_Inr [simp]: "typeText (Inr s) = s"
  by (simp add: typeText_def)

lemma returns_typeText: "returns r \<Longrightarrow> r = Inr (typeText r)"
  by (cases r) simp_all

lemma returns_bindE_Inr [simp]: "returns (bindE m (\<lambda>x. Inr (f x))) = returns m"
  by (cases m) simp_all

lemma returns_sequenceE: "(\<And>m. m \<in> set ms \<Longrightarrow> returns m) \<Longrightarrow> returns (sequenceE ms)"
proof (induction ms)
  case Nil
  show ?case by simp
next
  case (Cons m ms)
  from Cons.prems have "returns m" by simp
  then obtain x where m: "m = Inr x" by (cases m) simp_all
  from Cons have "returns (sequenceE ms)" by simp
  then show ?case by (simp add: m)
qed

lemma returns_sequenceE_map:
  "(\<And>x. x \<in> set xs \<Longrightarrow> returns (f x)) \<Longrightarrow> returns (sequenceE (map f xs))"
  by (rule returns_sequenceE) auto

lemma sequenceE_map_texts:
  "(\<And>x. x \<in> set xs \<Longrightarrow> returns (f x))
   \<Longrightarrow> sequenceE (map f xs) = Inr (map (\<lambda>x. typeText (f x)) xs)"
proof (induction xs)
  case Nil
  show ?case by simp
next
  case (Cons x xs)
  from Cons.prems have "returns (f x)" by simp
  then obtain s where s: "f x = Inr s" by (cases "f x") simp_all
  from Cons have "sequenceE (map f xs) = Inr (map (\<lambda>x. typeText (f x)) xs)" by simp
  then show ?case by (simp add: s)
qed

subsection \<open>Indentation\<close>

lemma js_repeat_repeatable: "repeatable n \<Longrightarrow> js_repeat s n = Inr (typeText (js_repeat s n))"
  by (cases n) auto

lemma js_repeat_not_repeatable: "\<not> repeatable n \<Longrightarrow> js_repeat s n = Inl RangeError"
  by (cases n) auto

lemma repeatable_js_succ: "repeatable n \<Longrightarrow> repeatable (js_succ n)"
  by (cases n) auto

lemma js_repeat_indentText:
  "repeatable lvl \<Longrightarrow> js_repeat (computedIndent cfg) lvl = Inr (indentText cfg lvl)"
  unfolding indentText_def by (rule js_repeat_repeatable)

subsection \<open>Sorting and deduplication\<close>

lemma set_foldl_setAdd: "set (foldl setAdd acc xs) = set acc \<union> set xs"
  by (induction xs arbitrary: acc) (auto simp: setAdd_def)

lemma distinct_foldl_setAdd: "distinct acc \<Longrightarrow> distinct (foldl setAdd acc xs)"
  by (induction xs arbitrary: acc) (auto simp: setAdd_def)

lemma set_arrayFromSet [simp]: "set (arrayFromSet xs) = set xs"
  by (simp add: arrayFromSet_def set_foldl_setAdd)

lemma distinct_arrayFromSet [simp]: "distinct (arrayFromSet xs)"
  by (simp add: arrayFromSet_def distinct_foldl_setAdd)

lemma arrayFromSet_Nil [simp]: "(arrayFromSet xs = []) = (xs = [])"
  by (metis set_arrayFromSet set_empty)

lemma js_sort_Nil [simp]: "(js_sort xs = []) = (xs = [])"
  unfolding js_sort_def by (metis length_sort length_0_conv)

lemma set_js_sort [simp]: "set (js_sort xs) = set xs"
  by (simp add: js_sort_def)

lemma js_sort_arrayFromSet: "js_sort (arrayFromSet xs) = sorted_list_of_set (set xs)"
proof -
  have "sorted_list_of_set (set (arrayFromSet xs)) = sort (remdups (arrayFromSet xs))"
    by (rule sorted_list_of_set_sort_remdups)
  then show ?thesis by (simp add: js_sort_def distinct_remdups_id)
qed

subsection \<open>Unfolding the two recursive functions\<close>

lemma present_concat:
  "concat (map (\<lambda>obj. case ownProperty obj key of None \<Rightarrow> [] | Some val \<Rightarrow> [g val]) arr)
   = map g (presentValues arr key)"
  unfolding presentValues_def by (induction arr) (auto split: option.splits)

lemma presentValues_member:
  "val \<in> set (presentValues arr key) \<Longrightarrow> \<exists>obj \<in> set arr. ownProperty obj key = Some val"
  unfolding presentValues_def by (auto split: option.splits)

lemma inferType_JArray:
  "inferType cfg (JArray xs) lvl m =
     bindE (js_repeat (computedIndent cfg) lvl) (\<lambda>indent'.
     bindE (js_repeat (computedIndent cfg) (js_succ lvl)) (\<lambda>nextIndent.
       if xs = [] then Inr (if arrayStyle cfg = Postfix then ''unknown[]'' else ''Array<unknown>'')
       else if list_all isArray xs
       then bindE (sequenceE (map (\<lambda>subArr. inferType cfg subArr (js_succ lvl) m) xs))
              (\<lambda>subArrayTypes.
                 Inr (arrayOfArraysType (arrayStyle cfg) m indent' nextIndent subArrayTypes))
       else if list_all isPlainObject xs
       then (case m of
               Merge \<Rightarrow> bindE (mergeObjectArrayTypes cfg xs lvl m)
                          (\<lambda>merged. Inr (mergedArrayType (arrayStyle cfg) merged))
             | Union \<Rightarrow> bindE (sequenceE (map (\<lambda>obj. inferType cfg obj (js_succ lvl) m) xs))
                          (\<lambda>objectTypes.
                             Inr (objectUnionType (arrayStyle cfg) indent' nextIndent objectTypes)))
       else bindE (sequenceE (map (\<lambda>el. elementType cfg el (js_succ lvl) m) xs))
              (\<lambda>elementTypes. Inr (mixedArrayType (arrayStyle cfg) elementTypes))))"
  unfolding elementType_def
  by (subst inferType.simps)
     (simp cong: if_cong TypeDetectiveMode.case_cong split del: if_split)

lemma inferType_JObject:
  "inferType cfg (JObject kvs) lvl m =
     bindE (js_repeat (computedIndent cfg) lvl) (\<lambda>indent'.
     bindE (js_repeat (computedIndent cfg) (js_succ lvl)) (\<lambda>nextIndent.
       bindE (sequenceE (map (\<lambda>kv. bindE (inferType cfg (snd kv) (js_succ lvl) m)
                                     (\<lambda>ty. Inr (fst kv, ty))) kvs))
         (\<lambda>properties. Inr (objectType indent' nextIndent properties))))"
  by (subst inferType.simps) simp

lemma inferType_primitive:
  "inferType cfg JNull lvl m =
     bindE (js_repeat (computedIndent cfg) lvl) (\<lambda>indent'.
     bindE (js_repeat (computedIndent cfg) (js_succ lvl)) (\<lambda>nextIndent. Inr ''null''))"
  "inferType cfg JUndefined lvl m =
     bindE (js_repeat (computedIndent cfg) lvl) (\<lambda>indent'.
     bindE (js_repeat (computedIndent cfg) (js_succ lvl)) (\<lambda>nextIndent. Inr ''undefined''))"
  "inferType cfg (JBoolean b) lvl m =
     bindE (js_repeat (computedIndent cfg) lvl) (\<lambda>indent'.
     bindE (js_repeat (computedIndent cfg) (js_succ lvl)) (\<lambda>nextIndent. Inr ''boolean''))"
  "inferType cfg (JNumber n) lvl m =
     bindE (js_repeat (computedIndent cfg) lvl) (\<lambda>indent'.
     bindE (js_repeat (computedIndent cfg) (js_succ lvl)) (\<lambda>nextIndent. Inr ''number''))"
  "inferType cfg (JString s) lvl m =
     bindE (js_repeat (computedIndent cfg) lvl) (\<lambda>indent'.
     bindE (js_repeat (computedIndent cfg) (js_succ lvl)) (\<lambda>nextIndent. Inr ''string''))"
  "inferType cfg JSymbol lvl m =
     bindE (js_repeat (computedIndent cfg) lvl) (\<lambda>indent'.
     bindE (js_repeat (computedIndent cfg) (js_succ lvl)) (\<lambda>nextIndent. Inr ''symbol''))"
  "inferType cfg (JBigInt i) lvl m =
     bindE (js_repeat (computedIndent cfg) lvl) (\<lambda>indent'.
     bindE (js_repeat (computedIndent cfg) (js_succ lvl)) (\<lambda>nextIndent. Inr ''bigint''))"
  "inferType cfg JFunction lvl m =
     bindE (js_repeat (computedIndent cfg) lvl) (\<lambda>indent'.
     bindE (js_repeat (computedIndent cfg) (js_succ lvl)) (\<lambda>nextIndent. Inr ''() => unknown''))"
  "inferType cfg JOther lvl m =
     bindE (js_repeat (computedIndent cfg) lvl) (\<lambda>indent'.
     bindE (js_repeat (computedIndent cfg) (js_succ lvl)) (\<lambda>nextIndent. Inr ''unknown''))"
  by (subst inferType.simps, simp)+

lemma mergeObjectArrayTypes_unfold:
  "mergeObjectArrayTypes cfg arr lvl m =
     bindE (js_repeat (computedIndent cfg) lvl) (\<lambda>indent'.
     bindE (js_repeat (computedIndent cfg) (js_succ lvl)) (\<lambda>nextIndent.
       if arr = [] then Inr ''{ [key: string]: unknown }''
       else if allKeys arr = [] then Inr ''Record<string | number | symbol, never>''
       else bindE (sequenceE (map (\<lambda>key.
                bindE (sequenceE (map (\<lambda>val. contributedType cfg val (js_succ lvl) m)
                                      (presentValues arr key)))
                  (\<lambda>types. Inr (mergedLine nextIndent (length arr) key types (length types))))
                (js_sort (allKeys arr))))
              (\<lambda>lines. Inr (''{\<newline>'' @ concat lines @ indent' @ ''}''))))"
  unfolding contributedType_def
  by (subst mergeObjectArrayTypes.simps)
     (simp add: Let_def present_concat cong: if_cong option.case_cong split del: if_split)

lemma inferType_not_repeatable:
  assumes "\<not> repeatable lvl"
  shows "inferType cfg v lvl m = Inl RangeError"
  by (subst inferType.simps)
     (simp only: js_repeat_not_repeatable[OF assms, of "computedIndent cfg"] bindE_Inl)

lemma mergeObjectArrayTypes_not_repeatable:
  assumes "\<not> repeatable lvl"
  shows "mergeObjectArrayTypes cfg arr lvl m = Inl RangeError"
  by (subst mergeObjectArrayTypes.simps)
     (simp only: js_repeat_not_repeatable[OF assms, of "computedIndent cfg"] bindE_Inl)

subsection \<open>Both functions return for every level \<^verbatim>\<open>repeat\<close> accepts\<close>

lemma returns_contributedType:
  assumes "isArray val \<Longrightarrow> elements val \<noteq> [] \<Longrightarrow> list_all isPlainObject (elements val)
             \<Longrightarrow> returns (mergeObjectArrayTypes cfg (elements val) lvl m)"
    and "isArray val \<Longrightarrow> \<not> (elements val \<noteq> [] \<and> list_all isPlainObject (elements val))
             \<Longrightarrow> returns (inferType cfg val lvl m)"
    and "\<not> isArray val \<Longrightarrow> truthy val \<and> typeof val = ''object''
             \<Longrightarrow> returns (mergeObjectArrayTypes cfg [val] lvl m)"
    and "\<not> isArray val \<Longrightarrow> \<not> (truthy val \<and> typeof val = ''object'')
             \<Longrightarrow> returns (inferType cfg val lvl m)"
  shows "returns (contributedType cfg val lvl m)"
  unfolding contributedType_def using assms by auto

lemma returns_elementType:
  assumes "isArray el \<Longrightarrow> returns (inferType cfg el lvl m)"
    and "\<not> isArray el \<Longrightarrow> truthy el \<and> typeof el = ''object'' \<Longrightarrow> m = Union
             \<Longrightarrow> returns (inferType cfg el lvl m)"
    and "\<not> isArray el \<Longrightarrow> truthy el \<and> typeof el = ''object'' \<Longrightarrow> m \<noteq> Union
             \<Longrightarrow> returns (mergeObjectArrayTypes cfg [el] lvl m)"
    and "\<not> isArray el \<Longrightarrow> \<not> (truthy el \<and> typeof el = ''object'')
             \<Longrightarrow> returns (inferType cfg el lvl m)"
  shows "returns (elementType cfg el lvl m)"
  unfolding elementType_def using assms by auto

lemma returns_inferType_mergeObjectArrayTypes:
  "repeatable lvl \<longrightarrow> returns (inferType cfg v lvl m)"
  "repeatable lvl \<longrightarrow> returns (mergeObjectArrayTypes cfg arr lvl m)"
proof (induction cfg v lvl m and cfg arr lvl m rule: inferType_mergeObjectArrayTypes.induct)
  case (1 cfg v indentLevel mode')
  show ?case
  proof
    assume ok: "repeatable indentLevel"
    note ok' = repeatable_js_succ[OF ok]
    note R1 = js_repeat_indentText[OF ok, of cfg]
    note R2 = js_repeat_indentText[OF ok', of cfg]
    note IH = "1.IH"[OF R1 R2, rule_format]
    show "returns (inferType cfg v indentLevel mode')"
    proof (cases v)
      case (JArray xs)
      note IHa = IH[unfolded JArray, simplified]
      consider (empty) "xs = []"
        | (arrays) "xs \<noteq> []" "list_all isArray xs"
        | (objects) "xs \<noteq> []" "\<not> list_all isArray xs" "list_all isPlainObject xs"
        | (mixed) "xs \<noteq> []" "\<not> list_all isArray xs" "\<not> list_all isPlainObject xs"
        by blast
      then show ?thesis
      proof cases
        case empty
        then show ?thesis
          unfolding JArray inferType_JArray R1 R2 bindE_Inr by simp
      next
        case arrays
        have "returns (sequenceE (map (\<lambda>subArr. inferType cfg subArr (js_succ indentLevel) mode') xs))"
          by (rule returns_sequenceE_map) (rule IHa(1)[OF arrays _ ok'])
        then show ?thesis
          unfolding JArray inferType_JArray R1 R2 bindE_Inr by (simp add: arrays)
      next
        case objects
        show ?thesis
        proof (cases mode')
          case Merge
          have "returns (mergeObjectArrayTypes cfg xs indentLevel Merge)"
            by (rule IHa(2)[OF objects Merge ok])
          then show ?thesis
            unfolding JArray inferType_JArray R1 R2 bindE_Inr by (simp add: objects Merge)
        next
          case Union
          have "returns (sequenceE (map (\<lambda>obj. inferType cfg obj (js_succ indentLevel) Union) xs))"
            by (rule returns_sequenceE_map) (rule IHa(3)[OF objects Union _ ok'])
          then show ?thesis
            unfolding JArray inferType_JArray R1 R2 bindE_Inr by (simp add: objects Union)
        qed
      next
        case mixed
        have "returns (elementType cfg el (js_succ indentLevel) mode')" if el: "el \<in> set xs" for el
        proof (rule returns_elementType)
          show "isArray el \<Longrightarrow> returns (inferType cfg el (js_succ indentLevel) mode')"
            by (rule IHa(4)[OF mixed el _ ok'])
          show "\<not> isArray el \<Longrightarrow> truthy el \<and> typeof el = ''object'' \<Longrightarrow> mode' = Union
                \<Longrightarrow> returns (inferType cfg el (js_succ indentLevel) mode')"
            using IHa(5)[OF mixed el _ _ _ ok'] by simp
          show "\<not> isArray el \<Longrightarrow> truthy el \<and> typeof el = ''object'' \<Longrightarrow> mode' \<noteq> Union
                \<Longrightarrow> returns (mergeObjectArrayTypes cfg [el] (js_succ indentLevel) mode')"
            by (rule IHa(6)[OF mixed el _ _ _ ok'])
          show "\<not> isArray el \<Longrightarrow> \<not> (truthy el \<and> typeof el = ''object'')
                \<Longrightarrow> returns (inferType cfg el (js_succ indentLevel) mode')"
            using IHa(7)[OF mixed el _ _ ok'] by blast
        qed
        then have "returns (sequenceE (map (\<lambda>el. elementType cfg el (js_succ indentLevel) mode') xs))"
          by (rule returns_sequenceE_map)
        then show ?thesis
          unfolding JArray inferType_JArray R1 R2 bindE_Inr by (simp add: mixed)
      qed
    next
      case (JObject kvs)
      note IHo = IH[unfolded JObject, simplified]
      have "returns (bindE (inferType cfg (snd kv) (js_succ indentLevel) mode')
                      (\<lambda>ty. Inr (fst kv, ty)))"
        if "kv \<in> set kvs" for kv
        using IHo(8)[OF that ok'] by simp
      then have "returns (sequenceE (map (\<lambda>kv.
                    bindE (inferType cfg (snd kv) (js_succ indentLevel) mode')
                      (\<lambda>ty. Inr (fst kv, ty))) kvs))"
        by (rule returns_sequenceE_map)
      then show ?thesis
        unfolding JObject inferType_JObject R1 R2 bindE_Inr by simp
    qed (simp_all add: inferType_primitive R1 R2)
  qed
next
  case (2 cfg arr indentLevel mode')
  show ?case
  proof
    assume ok: "repeatable indentLevel"
    note ok' = repeatable_js_succ[OF ok]
    note R1 = js_repeat_indentText[OF ok, of cfg]
    note R2 = js_repeat_indentText[OF ok', of cfg]
    note IH = "2.IH"[OF R1 R2, simplified, rule_format]
    show "returns (mergeObjectArrayTypes cfg arr indentLevel mode')"
    proof (cases "arr = [] \<or> allKeys arr = []")
      case True
      then show ?thesis
        unfolding mergeObjectArrayTypes_unfold R1 R2 bindE_Inr by auto
    next
      case False
      then have ne: "arr \<noteq> []" "allKeys arr \<noteq> []" by simp_all
      have c: "returns (contributedType cfg val (js_succ indentLevel) mode')"
        if key: "key \<in> set (js_sort (allKeys arr))" and val: "val \<in> set (presentValues arr key)"
        for key val
      proof -
        from val obtain obj where o: "obj \<in> set arr" "ownProperty obj key = Some val"
          by (auto dest: presentValues_member)
        have ne': "js_sort (allKeys arr) \<noteq> []" using ne(2) by simp
        note IHc = IH[OF ne(1) refl ne' key o]
        show ?thesis
        proof (rule returns_contributedType)
          show "isArray val \<Longrightarrow> elements val \<noteq> [] \<Longrightarrow> list_all isPlainObject (elements val)
             \<Longrightarrow> returns (mergeObjectArrayTypes cfg (elements val) (js_succ indentLevel) mode')"
            using IHc(1)[OF _ _ ok'] by simp
          show "isArray val \<Longrightarrow> \<not> (elements val \<noteq> [] \<and> list_all isPlainObject (elements val))
             \<Longrightarrow> returns (inferType cfg val (js_succ indentLevel) mode')"
            using IHc(2)[OF _ _ ok'] by simp
          show "\<not> isArray val \<Longrightarrow> truthy val \<and> typeof val = ''object''
             \<Longrightarrow> returns (mergeObjectArrayTypes cfg [val] (js_succ indentLevel) mode')"
            using IHc(3)[OF _ _ ok'] by simp
          show "\<not> isArray val \<Longrightarrow> \<not> (truthy val \<and> typeof val = ''object'')
             \<Longrightarrow> returns (inferType cfg val (js_succ indentLevel) mode')"
            using IHc(4)[OF _ _ ok'] by blast
        qed
      qed
      have "returns (bindE (sequenceE (map (\<lambda>val. contributedType cfg val (js_succ indentLevel) mode')
                                      (presentValues arr key)))
                  (\<lambda>types. Inr (mergedLine (indentText cfg (js_succ indentLevel)) (length arr) key
                                   types (length types))))"
        if key: "key \<in> set (js_sort (allKeys arr))" for key
        using c[OF key] by (simp add: returns_sequenceE_map)
      then have "returns (sequenceE (map (\<lambda>key.
                bindE (sequenceE (map (\<lambda>val. contributedType cfg val (js_succ indentLevel) mode')
                                      (presentValues arr key)))
                  (\<lambda>types. Inr (mergedLine (indentText cfg (js_succ indentLevel)) (length arr) key
                                   types (length types))))
                (js_sort (allKeys arr))))"
        by (rule returns_sequenceE_map)
      then show ?thesis
        unfolding mergeObjectArrayTypes_unfold R1 R2 bindE_Inr by (simp add: ne)
    qed
  qed
qed

lemma returns_inferType: "repeatable lvl \<Longrightarrow> returns (inferType cfg v lvl m)"
  by (simp add: returns_inferType_mergeObjectArrayTypes)

lemma returns_mergeObjectArrayTypes:
  "repeatable lvl \<Longrightarrow> returns (mergeObjectArrayTypes cfg arr lvl m)"
  by (simp add: returns_inferType_mergeObjectArrayTypes)

lemma returns_contributedType_repeatable:
  "repeatable lvl \<Longrightarrow> returns (contributedType cfg val lvl m)"
  by (rule returns_contributedType)
     (simp_all add: returns_inferType returns_mergeObjectArrayTypes)

lemma returns_elementType_repeatable:
  "repeatable lvl \<Longrightarrow> returns (elementType cfg el lvl m)"
  by (rule returns_elementType)
     (simp_all add: returns_inferType returns_mergeObjectArrayTypes)

subsection \<open>The rendered text of a merged object type and of an object\<close>

lemma sequenceE_map_Inr [simp]: "sequenceE (map (\<lambda>x. Inr (g x)) xs) = Inr (map g xs)"
  by (induction xs) simp_all

lemma sequenceE_contributedTypes:
  "repeatable lvl \<Longrightarrow>
   sequenceE (map (\<lambda>val. contributedType cfg val lvl m) (presentValues arr key))
   = Inr (contributedTypes cfg arr key lvl m)"
  unfolding contributedTypes_def
  by (rule sequenceE_map_texts) (rule returns_contributedType_repeatable)

lemma length_contributedTypes [simp]:
  "length (contributedTypes cfg arr key lvl m) = presentCount arr key"
  by (simp add: contributedTypes_def presentCount_def)

lemma mergeObjectArrayTypes_render:
  "mergeObjectArrayTypes cfg arr lvl m =
     (if \<not> repeatable lvl then Inl RangeError
      else if arr = [] then Inr ''{ [key: string]: unknown }''
      else if allKeys arr = [] then Inr ''Record<string | number | symbol, never>''
      else Inr (''{\<newline>''
                @ concat (map (\<lambda>key. mergedLine (indentText cfg (js_succ lvl)) (length arr) key
                                        (contributedTypes cfg arr key (js_succ lvl) m)
                                        (presentCount arr key))
                              (js_sort (allKeys arr)))
                @ indentText cfg lvl @ ''}''))"
proof (cases "repeatable lvl")
  case False
  then show ?thesis by (simp add: mergeObjectArrayTypes_not_repeatable)
next
  case True
  note ok' = repeatable_js_succ[OF True]
  show ?thesis
    unfolding mergeObjectArrayTypes_unfold[of cfg arr lvl m]
      js_repeat_indentText[OF True] js_repeat_indentText[OF ok'] bindE_Inr
      sequenceE_contributedTypes[OF ok']
    by (simp add: True)
qed

lemma inferType_text: "repeatable lvl \<Longrightarrow> inferType cfg v lvl m = Inr (typeText (inferType cfg v lvl m))"
  by (rule returns_typeText) (rule returns_inferType)

lemma sequenceE_properties:
  assumes "repeatable lvl"
  shows "sequenceE (map (\<lambda>kv. bindE (inferType cfg (snd kv) lvl m) (\<lambda>ty. Inr (fst kv, ty))) kvs)
         = Inr (map (\<lambda>kv. (fst kv, typeText (inferType cfg (snd kv) lvl m))) kvs)"
proof (induction kvs)
  case Nil
  show ?case by simp
next
  case (Cons kv kvs)
  show ?case
    by (simp add: Cons) (subst inferType_text[OF assms], simp)
qed

lemma inferType_object_render:
  "inferType cfg (JObject kvs) lvl m =
     (if \<not> repeatable lvl then Inl RangeError
      else Inr (objectType (indentText cfg lvl) (indentText cfg (js_succ lvl))
                  (map (\<lambda>kv. (fst kv, typeText (inferType cfg (snd kv) (js_succ lvl) m))) kvs)))"
proof (cases "repeatable lvl")
  case False
  then show ?thesis by (simp add: inferType_not_repeatable)
next
  case True
  note ok' = repeatable_js_succ[OF True]
  show ?thesis
    unfolding inferType_JObject
      js_repeat_indentText[OF True] js_repeat_indentText[OF ok'] bindE_Inr
      sequenceE_properties[OF ok']
    by (simp add: True)
qed

lemma mergeTypes_sorted_set: "mergeTypes types = join '' | '' (sorted_list_of_set (set types))"
  by (simp add: mergeTypes_def Let_def js_sort_arrayFromSet split: list.splits)

lemma presentValues_filter:
  "presentValues arr key
   = map (\<lambda>obj. the (ownProperty obj key)) (filter (\<lambda>obj. ownProperty obj key \<noteq> None) arr)"
  unfolding presentValues_def by (induction arr) (auto split: option.splits)

lemma mset_presentValues:
  "mset arr' = mset arr \<Longrightarrow> mset (presentValues arr' key) = mset (presentValues arr key)"
proof -
  have "mset (map f (filter P xs)) = image_mset f (filter_mset P (mset xs))"
    for f :: "jsvalue \<Rightarrow> jsvalue" and P xs
    by simp
  then show "mset arr' = mset arr \<Longrightarrow> ?thesis"
    unfolding presentValues_filter by (simp only:)
qed

lemma set_allKeys:
  "set (allKeys arr) = (\<Union>obj \<in> set arr. if isPlainObject obj then keysOf obj else {})"
  by (auto simp: allKeys_def keysOf_def split: if_splits)

lemma allKeys_perm:
  assumes "mset arr' = mset arr"
  shows "js_sort (allKeys arr') = js_sort (allKeys arr)" "(allKeys arr' = []) = (allKeys arr = [])"
proof -
  have s: "set arr' = set arr" using assms by (rule mset_eq_setD)
  have k: "set (allKeys arr') = set (allKeys arr)" by (simp add: set_allKeys s)
  show "js_sort (allKeys arr') = js_sort (allKeys arr)"
    unfolding allKeys_def js_sort_arrayFromSet using k unfolding allKeys_def by simp
  show "(allKeys arr' = []) = (allKeys arr = [])"
    using k by (metis set_empty)
qed

lemma mergedLine_perm:
  assumes "mset arr' = mset arr"
  shows "mergedLine ni (length arr') key (contributedTypes cfg arr' key lvl m) (presentCount arr' key)
       = mergedLine ni (length arr) key (contributedTypes cfg arr key lvl m) (presentCount arr key)"
proof -
  note p = mset_presentValues[OF assms, of key]
  have l: "length arr' = length arr" using assms by (rule mset_eq_length)
  have c: "presentCount arr' key = presentCount arr key"
    unfolding presentCount_def using p by (rule mset_eq_length)
  have "set (presentValues arr' key) = set (presentValues arr key)" using p by (rule mset_eq_setD)
  then have t: "set (contributedTypes cfg arr' key lvl m) = set (contributedTypes cfg arr key lvl m)"
    by (simp add: contributedTypes_def)
  show ?thesis
    by (simp add: mergedLine_def mergeTypes_sorted_set l c t)
qed

lemma mergeObjectArrayTypes_perm:
  assumes "mset arr' = mset arr"
  shows "mergeObjectArrayTypes cfg arr' lvl m = mergeObjectArrayTypes cfg arr lvl m"
proof -
  have e: "(arr' = []) = (arr = [])" using assms by (metis mset_zero_iff)
  show ?thesis
    unfolding mergeObjectArrayTypes_render allKeys_perm[OF assms] e mergedLine_perm[OF assms]
    by simp
qed

lemma ownProperty_keysOf:
  "isPlainObject obj \<Longrightarrow> (ownProperty obj key \<noteq> None) = (key \<in> keysOf obj)"
  by (auto simp: ownProperty_def keysOf_def map_of_eq_None_iff)

lemma presentCount_filter:
  "list_all isPlainObject arr \<Longrightarrow> presentCount arr key = length (filter (\<lambda>obj. key \<in> keysOf obj) arr)"
  unfolding presentCount_def presentValues_def
  by (induction arr) (auto simp: ownProperty_keysOf[symmetric] split: option.splits)

lemma presentCount_less:
  "list_all isPlainObject arr \<Longrightarrow>
   (presentCount arr key < length arr) = (\<exists>obj \<in> set arr. key \<notin> keysOf obj)"
proof -
  have "(length (filter P xs) < length xs) = (\<exists>x \<in> set xs. \<not> P x)" for P and xs :: "jsvalue list"
    by (induction xs) (auto simp: less_Suc_eq_le)
  then show "list_all isPlainObject arr \<Longrightarrow> ?thesis"
    by (simp add: presentCount_filter)
qed

subsection \<open>Evaluation on concrete values\<close>

lemma contributedType_simps:
  "contributedType cfg (JArray xs) lvl m =
     (if xs \<noteq> [] \<and> list_all isPlainObject xs
      then bindE (mergeObjectArrayTypes cfg xs lvl m) (\<lambda>merged. Inr (''Array<'' @ merged @ ''>''))
      else inferType cfg (JArray xs) lvl m)"
  "contributedType cfg (JObject kvs) lvl m = mergeObjectArrayTypes cfg [JObject kvs] lvl m"
  "contributedType cfg JNull lvl m = inferType cfg JNull lvl m"
  "contributedType cfg JUndefined lvl m = inferType cfg JUndefined lvl m"
  "contributedType cfg (JBoolean b) lvl m = inferType cfg (JBoolean b) lvl m"
  "contributedType cfg (JNumber n) lvl m = inferType cfg (JNumber n) lvl m"
  "contributedType cfg (JString s) lvl m = inferType cfg (JString s) lvl m"
  "contributedType cfg JSymbol lvl m = inferType cfg JSymbol lvl m"
  "contributedType cfg (JBigInt i) lvl m = inferType cfg (JBigInt i) lvl m"
  "contributedType cfg JFunction lvl m = inferType cfg JFunction lvl m"
  "contributedType cfg JOther lvl m = inferType cfg JOther lvl m"
  by (simp_all add: contributedType_def)

lemma elementType_simps:
  "elementType cfg (JArray xs) lvl m = inferType cfg (JArray xs) lvl m"
  "elementType cfg (JObject kvs) lvl m =
     (if m = Union then inferType cfg (JObject kvs) lvl m
      else mergeObjectArrayTypes cfg [JObject kvs] lvl m)"
  "elementType cfg JNull lvl m = inferType cfg JNull lvl m"
  "elementType cfg JUndefined lvl m = inferType cfg JUndefined lvl m"
  "elementType cfg (JBoolean b) lvl m = inferType cfg (JBoolean b) lvl m"
  "elementType cfg (JNumber n) lvl m = inferType cfg (JNumber n) lvl m"
  "elementType cfg (JString s) lvl m = inferType cfg (JString s) lvl m"
  "elementType cfg JSymbol lvl m = inferType cfg JSymbol lvl m"
  "elementType cfg (JBigInt i) lvl m = inferType cfg (JBigInt i) lvl m"
  "elementType cfg JFunction lvl m = inferType cfg JFunction lvl m"
  "elementType cfg JOther lvl m = inferType cfg JOther lvl m"
  by (simp_all add: elementType_def)

lemmas type_eval = inferType_primitive inferType_JArray inferType_JObject mergeObjectArrayTypes_unfold
  contributedType_simps elementType_simps typeDetectiveConfig_def
  arrayOfArraysType_def collectElementTypes_def flattenTypes_def stripPostfix_def singleLineUnion_def
  multiLineGeneric_def objectUnionType_def mergedArrayType_def mixedArrayType_def objectType_def
  mergedLine_def allKeys_def ownProperty_def presentValues_def isPlainObject_def mergeTypes_def
  arrayFromSet_def setAdd_def js_sort_def matchPostfix_def matchGeneric_def trim_def isWhiteSpace_def
  isLineTerminator_def startsWith_def endsWith_def includesNewline_def slice_1_m1_def Let_def eval_nat_numeral

lemma sorted_js_sort: "sorted (js_sort xs)"
  by (simp add: js_sort_def)

lemma distinct_js_sort_allKeys: "distinct (js_sort (allKeys arr))"
  by (simp add: js_sort_def allKeys_def)

lemma set_allKeys_objects:
  "list_all isPlainObject arr \<Longrightarrow> set (allKeys arr) = (\<Union>obj \<in> set arr. keysOf obj)"
  by (auto simp: set_allKeys list_all_iff)

lemma contributedType_inferType:
  "\<not> isPlainObject val \<Longrightarrow> \<not> (isArray val \<and> elements val \<noteq> [] \<and> list_all isPlainObject (elements val))
   \<Longrightarrow> contributedType cfg val lvl m = inferType cfg val lvl m"
  by (auto simp: contributedType_def isPlainObject_def)

lemmas object_eval = keysOf_def presentCount_def contributedTypes_def indentText_def

subsection \<open>What \<^verbatim>\<open>inferType\<close> reads of the configuration\<close>



subsection \<open>Runs of the state machine\<close>





section \<open>The claims\<close>

subsection \<open>C1: the two array styles\<close>

text \<open>
  Claim C1 says that switching \<^verbatim>\<open>arrayStyle\<close> between postfix and generic changes only
  the array-wrapping syntax of the text \<^verbatim>\<open>inferType\<close> returns.  The code does not keep
  to it: for \<^verbatim>\<open>[[{a: 1}]]\<close> in merge mode the postfix text has three array suffixes
  and the generic text has two wrappers.  The postfix pattern of line 106 has no \<^verbatim>\<open>s\<close>
  flag, so it does not match the multi-line text of the inner array and the whole text,
  suffix included, is taken as the element type; the generic pattern of line 113 has
  the flag.
\<close>

theorem array_style_changes_nesting:
  "inferType typeDetectiveConfig
     (JArray [JArray [JObject [(''a'', JNumber (Finite 1))]]]) (Finite 0) Merge
   = Inr ''{\<newline>    a: number;\<newline>  }[][][]''
   \<and> inferType (typeDetectiveConfig\<lparr>arrayStyle := Generic\<rparr>)
     (JArray [JArray [JObject [(''a'', JNumber (Finite 1))]]]) (Finite 0) Merge
   = Inr ''Array<Array<{\<newline>    a: number;\<newline>  }>>''"
  by (simp add: type_eval)

subsection \<open>C2: optional keys of a merged object type\<close>

text \<open>
  Claim C2: for every non-empty list \<open>arr\<close> of non-array, non-null objects,
  \<^verbatim>\<open>mergeObjectArrayTypes\<close> renders one line per key of the union of the objects' keys,
  and the line of a key carries the optional marker \<^verbatim>\<open>?\<close> iff the key's presence count
  (the number of objects that have the key) is strictly less than the number of
  objects, that is, iff the key is present in at least one object and absent from at
  least one; a key present in every object is never rendered optional.  (For an indent
  level that \<^verbatim>\<open>repeat\<close> rejects the call raises \<^verbatim>\<open>RangeError\<close>, see C9.)
\<close>

theorem mergeObjectArrayTypes_optional_marker:
  "arr \<noteq> [] \<and> list_all isPlainObject arr \<longrightarrow>
     mergeObjectArrayTypes cfg arr indentLevel mode' =
       (if \<not> repeatable indentLevel then Inl RangeError
        else if allKeys arr = [] then Inr ''Record<string | number | symbol, never>''
        else Inr (''{\<newline>''
                  @ concat (map (\<lambda>key.
                              indentText cfg (js_succ indentLevel) @ key
                              @ (if presentCount arr key < length arr then ''?'' else [])
                              @ '': ''
                              @ mergeTypes (contributedTypes cfg arr key (js_succ indentLevel) mode')
                              @ '';\<newline>'')
                            (js_sort (allKeys arr)))
                  @ indentText cfg indentLevel @ ''}''))
     \<and> set (js_sort (allKeys arr)) = (\<Union>obj \<in> set arr. keysOf obj)
     \<and> distinct (js_sort (allKeys arr))
     \<and> (\<forall>key. presentCount arr key = length (filter (\<lambda>obj. key \<in> keysOf obj) arr))
     \<and> (\<forall>key \<in> set (js_sort (allKeys arr)).
           (presentCount arr key < length arr)
           = ((\<exists>obj \<in> set arr. key \<in> keysOf obj) \<and> (\<exists>obj \<in> set arr. key \<notin> keysOf obj)))
     \<and> (\<forall>key. (\<forall>obj \<in> set arr. key \<in> keysOf obj) \<longrightarrow> \<not> presentCount arr key < length arr)"
proof (intro impI, elim conjE)
  assume ne: "arr \<noteq> []" and objs: "list_all isPlainObject arr"
  have render: "mergeObjectArrayTypes cfg arr indentLevel mode' =
       (if \<not> repeatable indentLevel then Inl RangeError
        else if allKeys arr = [] then Inr ''Record<string | number | symbol, never>''
        else Inr (''{\<newline>''
                  @ concat (map (\<lambda>key.
                              indentText cfg (js_succ indentLevel) @ key
                              @ (if presentCount arr key < length arr then ''?'' else [])
                              @ '': ''
                              @ mergeTypes (contributedTypes cfg arr key (js_succ indentLevel) mode')
                              @ '';\<newline>'')
                            (js_sort (allKeys arr)))
                  @ indentText cfg indentLevel @ ''}''))"
    unfolding mergeObjectArrayTypes_render mergedLine_def Let_def using ne by simp
  have keys: "set (js_sort (allKeys arr)) = (\<Union>obj \<in> set arr. keysOf obj)"
    using objs by (simp add: set_allKeys_objects)
  have less: "(presentCount arr key < length arr) = (\<exists>obj \<in> set arr. key \<notin> keysOf obj)" for key
    using objs by (rule presentCount_less)
  show "mergeObjectArrayTypes cfg arr indentLevel mode' =
       (if \<not> repeatable indentLevel then Inl RangeError
        else if allKeys arr = [] then Inr ''Record<string | number | symbol, never>''
        else Inr (''{\<newline>''
                  @ concat (map (\<lambda>key.
                              indentText cfg (js_succ indentLevel) @ key
                              @ (if presentCount arr key < length arr then ''?'' else [])
                              @ '': ''
                              @ mergeTypes (contributedTypes cfg arr key (js_succ indentLevel) mode')
                              @ '';\<newline>'')
                            (js_sort (allKeys arr)))
                  @ indentText cfg indentLevel @ ''}''))
     \<and> set (js_sort (allKeys arr)) = (\<Union>obj \<in> set arr. keysOf obj)
     \<and> distinct (js_sort (allKeys arr))
     \<and> (\<forall>key. presentCount arr key = length (filter (\<lambda>obj. key \<in> keysOf obj) arr))
     \<and> (\<forall>key \<in> set (js_sort (allKeys arr)).
           (presentCount arr key < length arr)
           = ((\<exists>obj \<in> set arr. key \<in> keysOf obj) \<and> (\<exists>obj \<in> set arr. key \<notin> keysOf obj)))
     \<and> (\<forall>key. (\<forall>obj \<in> set arr. key \<in> keysOf obj) \<longrightarrow> \<not> presentCount arr key < length arr)"
  proof (intro conjI allI ballI impI)
    show "mergeObjectArrayTypes cfg arr indentLevel mode' =
       (if \<not> repeatable indentLevel then Inl RangeError
        else if allKeys arr = [] then Inr ''Record<string | number | symbol, never>''
        else Inr (''{\<newline>''
                  @ concat (map (\<lambda>key.
                              indentText cfg (js_succ indentLevel) @ key
                              @ (if presentCount arr key < length arr then ''?'' else [])
                              @ '': ''
                              @ mergeTypes (contributedTypes cfg arr key (js_succ indentLevel) mode')
                              @ '';\<newline>'')
                            (js_sort (allKeys arr)))
                  @ indentText cfg indentLevel @ ''}''))"
      by (rule render)
    show "set (js_sort (allKeys arr)) = (\<Union>obj \<in> set arr. keysOf obj)" by (rule keys)
    show "distinct (js_sort (allKeys arr))" by (rule distinct_js_sort_allKeys)
    show "presentCount arr key = length (filter (\<lambda>obj. key \<in> keysOf obj) arr)" for key
      using objs by (rule presentCount_filter)
    show "(presentCount arr key < length arr)
           = ((\<exists>obj \<in> set arr. key \<in> keysOf obj) \<and> (\<exists>obj \<in> set arr. key \<notin> keysOf obj))"
      if "key \<in> set (js_sort (allKeys arr))" for key
      using that unfolding keys less by blast
    show "\<not> presentCount arr key < length arr" if "\<forall>obj \<in> set arr. key \<in> keysOf obj" for key
      using that unfolding less by blast
  qed
qed

theorem mergeObjectArrayTypes_optional_marker_witness:
  "mergeObjectArrayTypes typeDetectiveConfig
     [JObject [(''id'', JNumber (Finite 1)), (''name'', JString ''Alice'')],
      JObject [(''id'', JNumber (Finite 2)), (''email'', JString ''bob@x'')]] (Finite 0) Merge
   = Inr ''{\<newline>  email?: string;\<newline>  id: number;\<newline>  name?: string;\<newline>}''
   \<and> presentCount
     [JObject [(''id'', JNumber (Finite 1)), (''name'', JString ''Alice'')],
      JObject [(''id'', JNumber (Finite 2)), (''email'', JString ''bob@x'')]] ''id'' = 2
   \<and> presentCount
     [JObject [(''id'', JNumber (Finite 1)), (''name'', JString ''Alice'')],
      JObject [(''id'', JNumber (Finite 2)), (''email'', JString ''bob@x'')]] ''name'' = 1"
proof -
  let ?arr = "[JObject [(''id'', JNumber (Finite 1)), (''name'', JString ''Alice'')],
      JObject [(''id'', JNumber (Finite 2)), (''email'', JString ''bob@x'')]]"
  note t = mergeObjectArrayTypes_optional_marker[of ?arr typeDetectiveConfig "Finite 0" Merge]
  have h: "?arr \<noteq> [] \<and> list_all isPlainObject ?arr" by (simp add: isPlainObject_def)
  from t h have 1: "mergeObjectArrayTypes typeDetectiveConfig ?arr (Finite 0) Merge
     = Inr ''{\<newline>  email?: string;\<newline>  id: number;\<newline>  name?: string;\<newline>}''"
    by (simp add: type_eval object_eval)
  from t h have 2: "presentCount ?arr key = length (filter (\<lambda>obj. key \<in> keysOf obj) ?arr)" for key
    by blast
  show ?thesis using 1 2[of "''id''"] 2[of "''name''"] by (simp add: keysOf_def)
qed

subsection \<open>C3: the type of a key of a merged object type, and the order of the objects\<close>

text \<open>
  Claim C3: for every non-empty list \<open>arr\<close> of non-array, non-null objects merged in
  merge mode, the type rendered for a key is the ascending, duplicate-free list of the
  type texts the objects contribute to the key, joined with \<^verbatim>\<open> | \<close> (so without a bar
  when one distinct text remains), and a permutation of the objects leaves the whole
  result unchanged.  The text a value contributes is the one of lines 346-363
  (\<open>contributedType\<close>): the text \<^verbatim>\<open>inferType\<close> infers for it, unless the value is an
  object or a non-empty array of objects, which are merged in turn.
\<close>

theorem mergeObjectArrayTypes_union_commutes:
  "(arr \<noteq> [] \<and> list_all isPlainObject arr \<longrightarrow>
      mergeObjectArrayTypes cfg arr indentLevel mode' =
        (if \<not> repeatable indentLevel then Inl RangeError
         else if allKeys arr = [] then Inr ''Record<string | number | symbol, never>''
         else Inr (''{\<newline>''
                   @ concat (map (\<lambda>key.
                               indentText cfg (js_succ indentLevel) @ key
                               @ (if presentCount arr key < length arr then ''?'' else [])
                               @ '': ''
                               @ join '' | '' (sorted_list_of_set
                                   (set (contributedTypes cfg arr key (js_succ indentLevel) mode')))
                               @ '';\<newline>'')
                             (sorted_list_of_set (\<Union>obj \<in> set arr. keysOf obj)))
                   @ indentText cfg indentLevel @ ''}'')))
   \<and> (\<forall>key t. set (contributedTypes cfg arr key (js_succ indentLevel) mode') = {t} \<longrightarrow>
         join '' | '' (sorted_list_of_set
            (set (contributedTypes cfg arr key (js_succ indentLevel) mode'))) = t)
   \<and> (\<forall>key. contributedTypes cfg arr key (js_succ indentLevel) mode'
         = map (\<lambda>val. typeText (contributedType cfg val (js_succ indentLevel) mode'))
               (presentValues arr key))
   \<and> (\<forall>val. \<not> isPlainObject val
            \<and> \<not> (isArray val \<and> elements val \<noteq> [] \<and> list_all isPlainObject (elements val))
         \<longrightarrow> contributedType cfg val (js_succ indentLevel) mode'
             = inferType cfg val (js_succ indentLevel) mode')
   \<and> (mset arr' = mset arr \<longrightarrow>
         mergeObjectArrayTypes cfg arr' indentLevel mode'
         = mergeObjectArrayTypes cfg arr indentLevel mode')"
proof (intro conjI allI impI)
  assume "arr \<noteq> [] \<and> list_all isPlainObject arr"
  then have ne: "arr \<noteq> []" and objs: "list_all isPlainObject arr" by simp_all
  have keys: "js_sort (allKeys arr) = sorted_list_of_set (\<Union>obj \<in> set arr. keysOf obj)"
    unfolding allKeys_def js_sort_arrayFromSet
    using set_allKeys_objects[OF objs] unfolding allKeys_def by simp
  show "mergeObjectArrayTypes cfg arr indentLevel mode' =
        (if \<not> repeatable indentLevel then Inl RangeError
         else if allKeys arr = [] then Inr ''Record<string | number | symbol, never>''
         else Inr (''{\<newline>''
                   @ concat (map (\<lambda>key.
                               indentText cfg (js_succ indentLevel) @ key
                               @ (if presentCount arr key < length arr then ''?'' else [])
                               @ '': ''
                               @ join '' | '' (sorted_list_of_set
                                   (set (contributedTypes cfg arr key (js_succ indentLevel) mode')))
                               @ '';\<newline>'')
                             (sorted_list_of_set (\<Union>obj \<in> set arr. keysOf obj)))
                   @ indentText cfg indentLevel @ ''}''))"
    unfolding mergeObjectArrayTypes_render mergedLine_def Let_def mergeTypes_sorted_set keys
    using ne by simp
next
  fix key t
  assume "set (contributedTypes cfg arr key (js_succ indentLevel) mode') = {t}"
  then show "join '' | '' (sorted_list_of_set
            (set (contributedTypes cfg arr key (js_succ indentLevel) mode'))) = t"
    by simp
next
  fix key
  show "contributedTypes cfg arr key (js_succ indentLevel) mode'
         = map (\<lambda>val. typeText (contributedType cfg val (js_succ indentLevel) mode'))
               (presentValues arr key)"
    by (rule contributedTypes_def)
next
  fix val
  assume "\<not> isPlainObject val
            \<and> \<not> (isArray val \<and> elements val \<noteq> [] \<and> list_all isPlainObject (elements val))"
  then show "contributedType cfg val (js_succ indentLevel) mode'
             = inferType cfg val (js_succ indentLevel) mode'"
    by (simp add: contributedType_inferType)
next
  assume "mset arr' = mset arr"
  then show "mergeObjectArrayTypes cfg arr' indentLevel mode'
         = mergeObjectArrayTypes cfg arr indentLevel mode'"
    by (rule mergeObjectArrayTypes_perm)
qed

theorem mergeObjectArrayTypes_union_commutes_witness:
  "mergeObjectArrayTypes typeDetectiveConfig
     [JObject [(''v'', JNumber (Finite 1))], JObject [(''v'', JString ''x'')],
      JObject [(''v'', JNumber (Finite 2)), (''n'', JNull)]] (Finite 0) Merge
   = Inr ''{\<newline>  n?: null;\<newline>  v: number | string;\<newline>}''
   \<and> mergeObjectArrayTypes typeDetectiveConfig
     [JObject [(''v'', JNumber (Finite 2)), (''n'', JNull)], JObject [(''v'', JString ''x'')],
      JObject [(''v'', JNumber (Finite 1))]] (Finite 0) Merge
   = Inr ''{\<newline>  n?: null;\<newline>  v: number | string;\<newline>}''"
proof -
  let ?arr = "[JObject [(''v'', JNumber (Finite 1))], JObject [(''v'', JString ''x'')],
      JObject [(''v'', JNumber (Finite 2)), (''n'', JNull)]]"
  let ?arr' = "[JObject [(''v'', JNumber (Finite 2)), (''n'', JNull)], JObject [(''v'', JString ''x'')],
      JObject [(''v'', JNumber (Finite 1))]]"
  note t = mergeObjectArrayTypes_union_commutes[of ?arr typeDetectiveConfig "Finite 0" Merge ?arr']
  have h: "?arr \<noteq> [] \<and> list_all isPlainObject ?arr" by (simp add: isPlainObject_def)
  have p: "mset ?arr' = mset ?arr" by (simp add: add.commute)
  have u: "(\<Union>obj \<in> set ?arr. keysOf obj) = {''v'', ''n''}" by (auto simp: keysOf_def)
  from t h have 1: "mergeObjectArrayTypes typeDetectiveConfig ?arr (Finite 0) Merge
     = Inr ''{\<newline>  n?: null;\<newline>  v: number | string;\<newline>}''"
    unfolding u
    by (simp add: type_eval object_eval)
  from t p have 2: "mergeObjectArrayTypes typeDetectiveConfig ?arr' (Finite 0) Merge
     = mergeObjectArrayTypes typeDetectiveConfig ?arr (Finite 0) Merge"
    by blast
  show ?thesis using 1 2 by simp
qed

subsection \<open>C4: the array-of-arrays scenario\<close>

text \<open>
  Claim C4 says that with the default configuration \<^verbatim>\<open>inferType([[1,2],[3,4]])\<close> is
  \<^verbatim>\<open>number[][]\<close> and \<^verbatim>\<open>inferType([[1,"a"],[true,2]])\<close> is
  \<^verbatim>\<open>(boolean | number | string)[][]\<close>, the members joined with space, bar, space.  The
  first text is as claimed; the second is not: line 136 joins the members with a bare
  bar.
\<close>

theorem array_of_arrays_scenario:
  "inferType typeDetectiveConfig
     (JArray [JArray [JNumber (Finite 1), JNumber (Finite 2)],
              JArray [JNumber (Finite 3), JNumber (Finite 4)]]) (Finite 0) Merge
   = Inr ''number[][]''
   \<and> inferType typeDetectiveConfig
     (JArray [JArray [JNumber (Finite 1), JString ''a''],
              JArray [JBoolean True, JNumber (Finite 2)]]) (Finite 0) Merge
   = Inr ''(boolean|number|string)[][]''"
  by (simp add: type_eval)

subsection \<open>C5: a single distinct type in union mode\<close>

text \<open>
  Claim C5 says that for an array of objects, union mode with one distinct element type
  text returns that element type in one array wrapper.  For objects that render on one
  line (the empty objects) the postfix path of lines 216-234 returns the text of the
  array-of-arrays case instead: the element text split at its bars, in parentheses,
  with two array suffixes.  The generic style and the multi-line postfix path do
  return one wrapper.
\<close>

theorem union_singleton_empty_objects:
  "inferType typeDetectiveConfig (JArray [JObject []]) (Finite 0) Union
   = Inr ''(Record<string | number | symbol, never>)[][]''
   \<and> inferType typeDetectiveConfig (JArray [JObject [], JObject []]) (Finite 0) Union
   = Inr ''(Record<string | number | symbol, never>)[][]''
   \<and> inferType (typeDetectiveConfig\<lparr>arrayStyle := Generic\<rparr>) (JArray [JObject []]) (Finite 0) Union
   = Inr ''Array<Record<string | number | symbol, never>>''
   \<and> inferType typeDetectiveConfig (JArray [JObject [(''a'', JNumber (Finite 1))]]) (Finite 0) Union
   = Inr ''{\<newline>    a: number;\<newline>  }[]''"
  by (simp add: type_eval)

subsection \<open>C6: the key order of a single object\<close>


subsection \<open>C7: validation in \<^verbatim>\<open>setupTypeDetective\<close>\<close>

text \<open>
  Claim C7 says that \<^verbatim>\<open>setupTypeDetective\<close> applies the valid fields, ignores the rest
  and never fails.  The guard of line 413 accepts every positive number, so it accepts
  \<^verbatim>\<open>Infinity\<close>; the field is stored and \<^verbatim>\<open>" ".repeat(Infinity)\<close> at line 431 raises
  \<^verbatim>\<open>RangeError\<close>.
\<close>

theorem setupTypeDetective_infinite_indent_raises:
  "setupTypeDetective [(''indent'', JNumber PosInfinity)] typeDetectiveConfig
   = (Inl RangeError, typeDetectiveConfig\<lparr>indent := PosInfinity\<rparr>)"
  by (simp add: setupTypeDetective_def getOption_def typeDetectiveConfig_def)

subsection \<open>C8: the derived indent unit\<close>

text \<open>
  Claim C8 says that after every \<^verbatim>\<open>setupTypeDetective\<close> call \<^verbatim>\<open>_computedIndent\<close> is exactly
  \<^verbatim>\<open>indent\<close> repetitions of a tab or a space, for every accepted \<^verbatim>\<open>indent\<close>.  After the
  call with \<^verbatim>\<open>indent: Infinity\<close> of C7 the stored indent is infinite and the derived unit
  is still the two spaces of the initial configuration; and the accepted value
  \<^verbatim>\<open>2.5\<close> gives two spaces.
\<close>

theorem setupTypeDetective_computedIndent_mismatch:
  "indent (snd (setupTypeDetective [(''indent'', JNumber PosInfinity)] typeDetectiveConfig))
     = PosInfinity
   \<and> computedIndent (snd (setupTypeDetective [(''indent'', JNumber PosInfinity)] typeDetectiveConfig))
     = ''  ''
   \<and> setupTypeDetective [(''indent'', JNumber (Finite (5 / 2)))] typeDetectiveConfig
     = (Inr (), typeDetectiveConfig\<lparr>indent := Finite (5 / 2), computedIndent := ''  ''\<rparr>)"
proof -
  have "\<lfloor>(5::rat) / 2\<rfloor> = 2" by linarith
  then show ?thesis
    by (simp add: setupTypeDetective_def getOption_def typeDetectiveConfig_def eval_nat_numeral)
qed

subsection \<open>C9: termination and failure of \<^verbatim>\<open>inferType\<close>\<close>




subsection \<open>C10: determinism and the configuration\<close>



section \<open>Further properties of the code\<close>

subsection \<open>Primitive values, the empty array and the empty object\<close>

lemma bindE_indents:
  "bindE (js_repeat (computedIndent cfg) lvl) (\<lambda>indent'.
     bindE (js_repeat (computedIndent cfg) (js_succ lvl)) (\<lambda>nextIndent. f indent' nextIndent))
   = (if repeatable lvl then f (indentText cfg lvl) (indentText cfg (js_succ lvl))
      else Inl RangeError)"
  by (cases "repeatable lvl")
     (simp_all add: js_repeat_indentText repeatable_js_succ js_repeat_not_repeatable)

lemma inferType_primitive_render:
  "inferType cfg JNull lvl m = (if repeatable lvl then Inr ''null'' else Inl RangeError)"
  "inferType cfg JUndefined lvl m = (if repeatable lvl then Inr ''undefined'' else Inl RangeError)"
  "inferType cfg (JBoolean b) lvl m = (if repeatable lvl then Inr ''boolean'' else Inl RangeError)"
  "inferType cfg (JNumber n) lvl m = (if repeatable lvl then Inr ''number'' else Inl RangeError)"
  "inferType cfg (JString s) lvl m = (if repeatable lvl then Inr ''string'' else Inl RangeError)"
  "inferType cfg JSymbol lvl m = (if repeatable lvl then Inr ''symbol'' else Inl RangeError)"
  "inferType cfg (JBigInt i) lvl m = (if repeatable lvl then Inr ''bigint'' else Inl RangeError)"
  "inferType cfg JFunction lvl m = (if repeatable lvl then Inr ''() => unknown'' else Inl RangeError)"
  "inferType cfg JOther lvl m = (if repeatable lvl then Inr ''unknown'' else Inl RangeError)"
proof -
  have r: "bindE (js_repeat (computedIndent cfg) lvl) (\<lambda>indent'.
             bindE (js_repeat (computedIndent cfg) (js_succ lvl)) (\<lambda>nextIndent. Inr t))
           = (if repeatable lvl then Inr t else Inl RangeError)" for t :: string
    by (cases "repeatable lvl")
       (simp_all add: js_repeat_indentText repeatable_js_succ js_repeat_not_repeatable)
  show
  "inferType cfg JNull lvl m = (if repeatable lvl then Inr ''null'' else Inl RangeError)"
  "inferType cfg JUndefined lvl m = (if repeatable lvl then Inr ''undefined'' else Inl RangeError)"
  "inferType cfg (JBoolean b) lvl m = (if repeatable lvl then Inr ''boolean'' else Inl RangeError)"
  "inferType cfg (JNumber n) lvl m = (if repeatable lvl then Inr ''number'' else Inl RangeError)"
  "inferType cfg (JString s) lvl m = (if repeatable lvl then Inr ''string'' else Inl RangeError)"
  "inferType cfg JSymbol lvl m = (if repeatable lvl then Inr ''symbol'' else Inl RangeError)"
  "inferType cfg (JBigInt i) lvl m = (if repeatable lvl then Inr ''bigint'' else Inl RangeError)"
  "inferType cfg JFunction lvl m = (if repeatable lvl then Inr ''() => unknown'' else Inl RangeError)"
  "inferType cfg JOther lvl m = (if repeatable lvl then Inr ''unknown'' else Inl RangeError)"
    unfolding inferType_primitive r by (rule refl)+
qed

text \<open>
  X1 (spec, section 8): for every primitive kind and for functions \<^verbatim>\<open>inferType\<close> returns
  the fixed token of lines 70-89, whatever the mode, the configuration and the indent
  level (among the levels \<^verbatim>\<open>repeat\<close> accepts).
\<close>

theorem inferType_primitive_tokens:
  "inferType cfg JNull lvl m = (if repeatable lvl then Inr ''null'' else Inl RangeError)
   \<and> inferType cfg JUndefined lvl m = (if repeatable lvl then Inr ''undefined'' else Inl RangeError)
   \<and> inferType cfg (JBoolean b) lvl m = (if repeatable lvl then Inr ''boolean'' else Inl RangeError)
   \<and> inferType cfg (JNumber n) lvl m = (if repeatable lvl then Inr ''number'' else Inl RangeError)
   \<and> inferType cfg (JString s) lvl m = (if repeatable lvl then Inr ''string'' else Inl RangeError)
   \<and> inferType cfg JSymbol lvl m = (if repeatable lvl then Inr ''symbol'' else Inl RangeError)
   \<and> inferType cfg (JBigInt i) lvl m = (if repeatable lvl then Inr ''bigint'' else Inl RangeError)
   \<and> inferType cfg JFunction lvl m
       = (if repeatable lvl then Inr ''() => unknown'' else Inl RangeError)"
  by (intro conjI) (rule inferType_primitive_render)+

text \<open>
  X2 (spec, section 8): the empty array is given the empty-array token of the active
  style (lines 92-96) and the empty object the token of lines 279-281.
\<close>

theorem inferType_empty_tokens:
  "inferType cfg (JArray []) lvl m
     = (if \<not> repeatable lvl then Inl RangeError
        else if arrayStyle cfg = Postfix then Inr ''unknown[]'' else Inr ''Array<unknown>'')
   \<and> inferType cfg (JObject []) lvl m
     = (if \<not> repeatable lvl then Inl RangeError
        else Inr ''Record<string | number | symbol, never>'')"
  unfolding inferType_JArray inferType_JObject bindE_indents
  by (simp add: objectType_def)

subsection \<open>What \<^verbatim>\<open>setupTypeDetective\<close> does for every argument\<close>

lemma js_repeat_case:
  "(case js_repeat s n of Inl e \<Rightarrow> (Inl e, c) | Inr t \<Rightarrow> (Inr (), c\<lparr>computedIndent := t\<rparr>))
   = (if repeatable n then (Inr (), c\<lparr>computedIndent := typeText (js_repeat s n)\<rparr>)
      else (Inl RangeError, c))"
  by (cases n) auto

text \<open>
  X3: for every options object and every configuration, each of the four fields is
  replaced iff the option passes the test of lines 413-424 and keeps its value
  otherwise; the call returns normally iff \<^verbatim>\<open>repeat\<close> accepts the resulting indent, and
  then \<^verbatim>\<open>_computedIndent\<close> is the tab or the space repeated that many times (the count
  truncated to an integer); when \<^verbatim>\<open>repeat\<close> raises, \<^verbatim>\<open>_computedIndent\<close> keeps its value.
\<close>

theorem setupTypeDetective_fields:
  "indent (snd (setupTypeDetective options cfg))
     = (case getOption options ''indent'' of
          JNumber n \<Rightarrow> if js_positive n then n else indent cfg
        | _ \<Rightarrow> indent cfg)
   \<and> indentType (snd (setupTypeDetective options cfg))
     = (if getOption options ''indentType'' = JString ''space'' then Space
        else if getOption options ''indentType'' = JString ''tab'' then Tab
        else indentType cfg)
   \<and> arrayStyle (snd (setupTypeDetective options cfg))
     = (if getOption options ''arrayStyle'' = JString ''generic'' then Generic
        else if getOption options ''arrayStyle'' = JString ''postfix'' then Postfix
        else arrayStyle cfg)
   \<and> mode (snd (setupTypeDetective options cfg))
     = (if getOption options ''mode'' = JString ''merge'' then Merge
        else if getOption options ''mode'' = JString ''union'' then Union
        else mode cfg)
   \<and> fst (setupTypeDetective options cfg)
     = (if repeatable (indent (snd (setupTypeDetective options cfg))) then Inr ()
        else Inl RangeError)
   \<and> computedIndent (snd (setupTypeDetective options cfg))
     = (if repeatable (indent (snd (setupTypeDetective options cfg)))
        then typeText (js_repeat
               (if indentType (snd (setupTypeDetective options cfg)) = Tab then [CHR 0x09]
                else '' '')
               (indent (snd (setupTypeDetective options cfg))))
        else computedIndent cfg)"
proof -
  define cfg1 where "cfg1 = (case getOption options ''indent'' of
                    JNumber n \<Rightarrow> if js_positive n then cfg\<lparr>indent := n\<rparr> else cfg
                  | _ \<Rightarrow> cfg)"
  define cfg2 where "cfg2 = (if getOption options ''indentType'' = JString ''space''
                  then cfg1\<lparr>indentType := Space\<rparr>
                  else if getOption options ''indentType'' = JString ''tab''
                  then cfg1\<lparr>indentType := Tab\<rparr>
                  else cfg1)"
  define cfg3 where "cfg3 = (if getOption options ''arrayStyle'' = JString ''generic''
                  then cfg2\<lparr>arrayStyle := Generic\<rparr>
                  else if getOption options ''arrayStyle'' = JString ''postfix''
                  then cfg2\<lparr>arrayStyle := Postfix\<rparr>
                  else cfg2)"
  define cfg4 where "cfg4 = (if getOption options ''mode'' = JString ''merge''
                  then cfg3\<lparr>mode := Merge\<rparr>
                  else if getOption options ''mode'' = JString ''union''
                  then cfg3\<lparr>mode := Union\<rparr>
                  else cfg3)"
  have s: "setupTypeDetective options cfg
      = (if repeatable (indent cfg4)
         then (Inr (), cfg4\<lparr>computedIndent :=
                 typeText (js_repeat (if indentType cfg4 = Tab then [CHR 0x09] else '' '')
                             (indent cfg4))\<rparr>)
         else (Inl RangeError, cfg4))"
    unfolding setupTypeDetective_def Let_def js_repeat_case cfg1_def cfg2_def cfg3_def cfg4_def ..
  have f1: "indent cfg1 = (case getOption options ''indent'' of
          JNumber n \<Rightarrow> if js_positive n then n else indent cfg
        | _ \<Rightarrow> indent cfg)"
    "indentType cfg1 = indentType cfg" "arrayStyle cfg1 = arrayStyle cfg" "mode cfg1 = mode cfg"
    "computedIndent cfg1 = computedIndent cfg"
    unfolding cfg1_def by (simp_all split: jsvalue.splits)
  have f2: "indent cfg2 = indent cfg1"
    "indentType cfg2 = (if getOption options ''indentType'' = JString ''space'' then Space
        else if getOption options ''indentType'' = JString ''tab'' then Tab
        else indentType cfg1)"
    "arrayStyle cfg2 = arrayStyle cfg1" "mode cfg2 = mode cfg1"
    "computedIndent cfg2 = computedIndent cfg1"
    unfolding cfg2_def by simp_all
  have f3: "indent cfg3 = indent cfg2" "indentType cfg3 = indentType cfg2"
    "arrayStyle cfg3 = (if getOption options ''arrayStyle'' = JString ''generic'' then Generic
        else if getOption options ''arrayStyle'' = JString ''postfix'' then Postfix
        else arrayStyle cfg2)"
    "mode cfg3 = mode cfg2" "computedIndent cfg3 = computedIndent cfg2"
    unfolding cfg3_def by simp_all
  have f4: "indent cfg4 = indent cfg3" "indentType cfg4 = indentType cfg3"
    "arrayStyle cfg4 = arrayStyle cfg3"
    "mode cfg4 = (if getOption options ''mode'' = JString ''merge'' then Merge
        else if getOption options ''mode'' = JString ''union'' then Union
        else mode cfg3)"
    "computedIndent cfg4 = computedIndent cfg3"
    unfolding cfg4_def by simp_all
  show ?thesis
    unfolding s by (simp add: f4 f3 f2 f1)
qed

subsection \<open>Arrays of primitive values in the two styles\<close>

lemma inferType_primitive_config:
  "\<not> isArray x \<Longrightarrow> \<not> isPlainObject x \<Longrightarrow> computedIndent cfg' = computedIndent cfg
   \<Longrightarrow> inferType cfg' x lvl m = inferType cfg x lvl m"
  by (cases x) (simp_all add: inferType_primitive isPlainObject_def)

lemma elementType_primitive:
  "\<not> isArray x \<Longrightarrow> \<not> isPlainObject x \<Longrightarrow> elementType cfg x lvl m = inferType cfg x lvl m"
  by (auto simp: elementType_def isPlainObject_def)

lemma inferType_mixed_array:
  assumes "xs \<noteq> []" "\<not> list_all isArray xs" "\<not> list_all isPlainObject xs" "repeatable lvl"
  shows "inferType cfg (JArray xs) lvl m
         = Inr (mixedArrayType (arrayStyle cfg)
                  (map (\<lambda>el. typeText (elementType cfg el (js_succ lvl) m)) xs))"
  unfolding inferType_JArray bindE_indents
    sequenceE_map_texts[of xs "\<lambda>el. elementType cfg el (js_succ lvl) m",
       OF returns_elementType_repeatable[OF repeatable_js_succ[OF assms(4)]]]
  using assms by simp

text \<open>
  X4: for a non-empty array without arrays and objects among its elements the two
  styles wrap the same list of element type texts (the distinct texts in order of
  first occurrence): postfix as \<^verbatim>\<open>T[]\<close> or \<^verbatim>\<open>(T1 | ... | Tn)[]\<close>, generic as
  \<^verbatim>\<open>Array<T1 | ... | Tn>\<close>.  This is the part of C1 the code keeps.
\<close>

theorem inferType_primitive_array_styles:
  "xs \<noteq> [] \<and> list_all (\<lambda>x. \<not> isArray x \<and> \<not> isPlainObject x) xs \<and> repeatable lvl \<longrightarrow>
     inferType (cfg\<lparr>arrayStyle := Postfix\<rparr>) (JArray xs) lvl m
       = Inr (let ts = arrayFromSet (map (\<lambda>x. typeText (inferType cfg x (js_succ lvl) m)) xs)
              in case ts of [t] \<Rightarrow> t @ ''[]'' | _ \<Rightarrow> ''('' @ join '' | '' ts @ '')[]'')
     \<and> inferType (cfg\<lparr>arrayStyle := Generic\<rparr>) (JArray xs) lvl m
       = Inr (''Array<''
              @ join '' | '' (arrayFromSet (map (\<lambda>x. typeText (inferType cfg x (js_succ lvl) m)) xs))
              @ ''>'')"
proof (intro impI, elim conjE)
  assume ne: "xs \<noteq> []" and prim: "list_all (\<lambda>x. \<not> isArray x \<and> \<not> isPlainObject x) xs"
    and ok: "repeatable lvl"
  from ne obtain x where x: "x \<in> set xs" by (cases xs) auto
  with prim have "\<not> isArray x" "\<not> isPlainObject x" by (auto simp: list_all_iff)
  with x have na: "\<not> list_all isArray xs" and no: "\<not> list_all isPlainObject xs"
    by (auto simp: list_all_iff)
  have el: "map (\<lambda>el. typeText (elementType (cfg\<lparr>arrayStyle := s\<rparr>) el (js_succ lvl) m)) xs
          = map (\<lambda>x. typeText (inferType cfg x (js_succ lvl) m)) xs" for s
  proof (rule map_cong[OF refl])
    fix y assume "y \<in> set xs"
    with prim have y: "\<not> isArray y" "\<not> isPlainObject y" by (auto simp: list_all_iff)
    show "typeText (elementType (cfg\<lparr>arrayStyle := s\<rparr>) y (js_succ lvl) m)
        = typeText (inferType cfg y (js_succ lvl) m)"
      by (simp add: elementType_primitive[OF y]
            inferType_primitive_config[OF y, of "cfg\<lparr>arrayStyle := s\<rparr>" cfg])
  qed
  show "inferType (cfg\<lparr>arrayStyle := Postfix\<rparr>) (JArray xs) lvl m
       = Inr (let ts = arrayFromSet (map (\<lambda>x. typeText (inferType cfg x (js_succ lvl) m)) xs)
              in case ts of [t] \<Rightarrow> t @ ''[]'' | _ \<Rightarrow> ''('' @ join '' | '' ts @ '')[]'')
     \<and> inferType (cfg\<lparr>arrayStyle := Generic\<rparr>) (JArray xs) lvl m
       = Inr (''Array<''
              @ join '' | '' (arrayFromSet (map (\<lambda>x. typeText (inferType cfg x (js_succ lvl) m)) xs))
              @ ''>'')"
    unfolding inferType_mixed_array[OF ne na no ok] el
    by (simp add: mixedArrayType_def Let_def)
qed

theorem inferType_primitive_array_styles_witness:
  "inferType typeDetectiveConfig (JArray [JNumber (Finite 1), JString ''a'', JBoolean True, JNumber (Finite 2)])
     (Finite 0) Merge = Inr ''(number | string | boolean)[]''
   \<and> inferType (typeDetectiveConfig\<lparr>arrayStyle := Generic\<rparr>)
       (JArray [JNumber (Finite 1), JString ''a'', JBoolean True, JNumber (Finite 2)])
     (Finite 0) Merge = Inr ''Array<number | string | boolean>''"
proof -
  let ?xs = "[JNumber (Finite 1), JString ''a'', JBoolean True, JNumber (Finite 2)]"
  have h: "?xs \<noteq> [] \<and> list_all (\<lambda>x. \<not> isArray x \<and> \<not> isPlainObject x) ?xs \<and> repeatable (Finite 0)"
    by (simp add: isPlainObject_def)
  have p: "typeDetectiveConfig\<lparr>arrayStyle := Postfix\<rparr> = typeDetectiveConfig"
    by (simp add: typeDetectiveConfig_def)
  note t = inferType_primitive_array_styles[of ?xs "Finite 0" typeDetectiveConfig Merge,
      THEN mp, OF h, unfolded p]
  show ?thesis
    using t by (simp add: inferType_primitive_render arrayFromSet_def setAdd_def)
qed

subsection \<open>Union mode with one distinct multi-line type\<close>

lemma arrayFromSet_singleton: "set xs = {u} \<Longrightarrow> arrayFromSet xs = [u]"
proof -
  assume s: "set xs = {u}"
  have d: "distinct (arrayFromSet xs)" and e: "set (arrayFromSet xs) = {u}" using s by simp_all
  show ?thesis
  proof (cases "arrayFromSet xs")
    case Nil
    with e show ?thesis by simp
  next
    case (Cons y ys)
    with e have y: "y = u" and sub: "set ys \<subseteq> {u}" by auto
    from d Cons y have "u \<notin> set ys" by simp
    with sub have "ys = []" by (cases ys) auto
    then show ?thesis using Cons y by simp
  qed
qed

lemma inferType_object_multiline:
  "kvs \<noteq> [] \<Longrightarrow> repeatable lvl \<Longrightarrow> includesNewline (typeText (inferType cfg (JObject kvs) lvl m))"
  by (simp add: inferType_object_render objectType_def includesNewline_def)

text \<open>
  X5: for a non-empty array of objects whose texts in union mode are all the one
  multi-line text \<open>u\<close> (every non-empty object has a multi-line text), \<^verbatim>\<open>inferType\<close>
  returns \<open>u\<close> in one array wrapper of the active style.  This is the part of C5 the
  code keeps.
\<close>

theorem inferType_union_singleton_multiline:
  "xs \<noteq> [] \<and> list_all isPlainObject xs \<and> repeatable lvl
   \<and> set (map (\<lambda>obj. typeText (inferType cfg obj (js_succ lvl) Union)) xs) = {u}
   \<and> includesNewline u \<longrightarrow>
     inferType cfg (JArray xs) lvl Union
       = Inr (if arrayStyle cfg = Postfix then u @ ''[]''
              else ''Array<\<newline>'' @ indentText cfg (js_succ lvl) @ u @ ''\<newline>''
                   @ indentText cfg lvl @ ''>'')"
proof (intro impI, elim conjE)
  assume ne: "xs \<noteq> []" and objs: "list_all isPlainObject xs" and ok: "repeatable lvl"
    and u: "set (map (\<lambda>obj. typeText (inferType cfg obj (js_succ lvl) Union)) xs) = {u}"
    and nl: "includesNewline u"
  from ne obtain x where x: "x \<in> set xs" by (cases xs) auto
  with objs have "\<not> isArray x" by (auto simp: list_all_iff isPlainObject_def)
  with x have na: "\<not> list_all isArray xs" by (auto simp: list_all_iff)
  note seq = sequenceE_map_texts[of xs "\<lambda>obj. inferType cfg obj (js_succ lvl) Union",
       OF returns_inferType[OF repeatable_js_succ[OF ok]]]
  show "inferType cfg (JArray xs) lvl Union
       = Inr (if arrayStyle cfg = Postfix then u @ ''[]''
              else ''Array<\<newline>'' @ indentText cfg (js_succ lvl) @ u @ ''\<newline>''
                   @ indentText cfg lvl @ ''>'')"
    unfolding inferType_JArray bindE_indents seq
    using ne na objs ok nl
    by (simp add: objectUnionType_def arrayFromSet_singleton[OF u] multiLineGeneric_def)
qed

theorem inferType_union_singleton_multiline_witness:
  "inferType typeDetectiveConfig
     (JArray [JObject [(''a'', JNumber (Finite 1))], JObject [(''a'', JNumber (Finite 2))]])
     (Finite 0) Union = Inr ''{\<newline>    a: number;\<newline>  }[]''"
proof -
  let ?xs = "[JObject [(''a'', JNumber (Finite 1))], JObject [(''a'', JNumber (Finite 2))]]"
  let ?u = "''{\<newline>    a: number;\<newline>  }''"
  have t: "typeText (inferType typeDetectiveConfig (JObject [(''a'', JNumber n)]) (Finite 1) Union) = ?u"
    for n
    by (simp add: type_eval)
  have h: "?xs \<noteq> [] \<and> list_all isPlainObject ?xs \<and> repeatable (Finite 0)
     \<and> set (map (\<lambda>obj. typeText (inferType typeDetectiveConfig obj (js_succ (Finite 0)) Union)) ?xs) = {?u}
     \<and> includesNewline ?u"
    by (simp add: isPlainObject_def t includesNewline_def)
  note r = inferType_union_singleton_multiline[of ?xs "Finite 0" typeDetectiveConfig ?u,
      THEN mp, OF h]
  show ?thesis
    using r by (simp add: typeDetectiveConfig_def)
qed

subsection \<open>Scenarios of the specification\<close>

text \<open>
  X6 (spec, section 8): the merge-mode scenario (keys sorted, optional markers), the
  union-mode scenario (variants in encounter order) and the scenario with
  \<^verbatim>\<open>indent: 4\<close> and the generic style, run through \<^verbatim>\<open>setupTypeDetective\<close>.
\<close>

theorem spec_scenarios:
  "inferType typeDetectiveConfig
     (JArray [JObject [(''id'', JNumber (Finite 1)), (''name'', JString ''Alice'')],
              JObject [(''id'', JNumber (Finite 2)), (''email'', JString ''bob@x'')]])
     (Finite 0) Merge
   = Inr ''{\<newline>  email?: string;\<newline>  id: number;\<newline>  name?: string;\<newline>}[]''
   \<and> inferType typeDetectiveConfig
     (JArray [JObject [(''a'', JNumber (Finite 1))], JObject [(''b'', JString ''x'')]])
     (Finite 0) Union
   = Inr ''({\<newline>    a: number;\<newline>  } |\<newline>  {\<newline>    b: string;\<newline>  })[]''
   \<and> fst (run [SetupTypeDetective [(''indent'', JNumber (Finite 4)),
                                    (''arrayStyle'', JString ''generic'')],
               InferType (JObject [(''users'',
                  JArray [JObject [(''id'', JNumber (Finite 1)), (''name'', JString ''Alice'')]])])
                 None None] typeDetectiveConfig)
     = [Done (Inr ()),
        Text (Inr ''{\<newline>    users: Array<{\<newline>        id: number;\<newline>        name: string;\<newline>    }>;\<newline>}'')]"
  by (simp add: type_eval setupTypeDetective_def getOption_def callInferType_def)

end
